theory Spec2Isabelle
  imports Complex_Main "HOL-Library.Sublist" "HOL-Library.Multiset"
begin

section \<open>Chat assistant dispatch: \<open>ChatViewSet.send_message\<close>\<close>

text \<open>
  A shallow embedding of \<^verbatim>\<open>src/apps/assistant/views.py\<close>, lines 51 to 286: the
  view \<^verbatim>\<open>ChatViewSet.send_message\<close>. The relational store is a record of row
  lists, the outbound HTTP client is a function from the request sent to what
  \<^verbatim>\<open>requests.post\<close> does with it, every exception is a value, and the effects
  of one dispatch (rows created, session saved, request posted) are appended to a
  trace in the order the view performs them.
\<close>

subsection \<open>Python values\<close>

text \<open>
  The values of a decoded JSON document: what \<^verbatim>\<open>request.data.get\<close> hands to the
  view and what \<^verbatim>\<open>response.json()\<close> returns. A scalar is \<^verbatim>\<open>None\<close>, a boolean,
  an integer, a float or a string; a finite float is given by its value, which is a
  rational number. Strings are byte strings (UTF-8).
\<close>

datatype pyfloat = Finite rat | Infinity bool | NaN

datatype pyval = PNone | PBool bool | PInt int | PFloat pyfloat | PStr string

datatype json = JVal pyval | JArr "json list" | JObj "(string \<times> json) list"

datatype exn =
    DoesNotExist | MultipleObjectsReturned | IntegrityError
  | ValueError | TypeError | OverflowError | KeyError | IndexError | AttributeError
  | JSONDecodeError
  | Timeout string
  | RequestException string
  | OtherException string

text \<open>Truth value of an object, as \<^verbatim>\<open>if x:\<close> and \<^verbatim>\<open>not x\<close> test it.\<close>

fun truthy :: "pyval \<Rightarrow> bool" where
  "truthy PNone = False"
| "truthy (PBool b) = b"
| "truthy (PInt n) = (n \<noteq> 0)"
| "truthy (PFloat (Finite q)) = (q \<noteq> 0)"
| "truthy (PFloat f) = True"
| "truthy (PStr s) = (s \<noteq> [])"

fun json_truthy :: "json \<Rightarrow> bool" where
  "json_truthy (JVal v) = truthy v"
| "json_truthy (JArr xs) = (xs \<noteq> [])"
| "json_truthy (JObj kvs) = (kvs \<noteq> [])"

definition and_then :: "exn + 'a \<Rightarrow> ('a \<Rightarrow> exn + 'b) \<Rightarrow> exn + 'b" where
  "and_then r f = (case r of Inl e \<Rightarrow> Inl e | Inr x \<Rightarrow> f x)"

subsection \<open>The data model\<close>

record assistant_session =
  s_id :: int
  s_session_id :: string
  s_user :: int
  s_conversation_id :: json

record chat_message =
  m_id :: int
  m_session :: int
  m_role :: string
  m_content :: json
  m_conversation_id :: json
  m_message_id :: json
  m_created_at :: nat

record ai_model_config =
  c_id :: int
  c_name :: string
  c_api_key :: string
  c_base_url :: string
  c_model_name :: string
  c_temperature :: json
  c_max_tokens :: int
  c_is_active :: bool

record dify_config =
  d_id :: int
  d_api_key :: string
  d_api_url :: string
  d_is_active :: bool

record http_request =
  q_url :: string
  q_headers :: "(string \<times> string) list"
  q_json :: json
  q_timeout :: nat

record http_response =
  p_status_code :: int
  p_text :: string
  p_json :: "json option"

datatype post_result = Responds http_response | Raises exn

datatype event =
    CreateMessage chat_message
  | SaveSession assistant_session
  | Post http_request

text \<open>
  The store. Each table lists its rows in the order its default queryset returns
  them; \<open>next_message_id\<close> is the next value of the message table's primary key
  and \<open>clock\<close> the time stamp the next created row gets.
\<close>

record store =
  sessions :: "assistant_session list"
  chat_messages :: "chat_message list"
  ai_configs :: "ai_model_config list"
  dify_configs :: "dify_config list"
  next_message_id :: int
  clock :: nat
  trace :: "event list"

record request =
  r_user :: int
  r_data :: "string \<rightharpoonup> json"

text \<open>\<^verbatim>\<open>request.data.get(key)\<close>\<close>

definition data_get :: "(string \<rightharpoonup> json) \<Rightarrow> string \<Rightarrow> json" where
  "data_get d k = (case d k of None \<Rightarrow> JVal PNone | Some v \<Rightarrow> v)"

text \<open>
  What the view answers. The texts of the error messages are templates filled with
  a status code or an exception; the template and its argument stand for the text.
\<close>

datatype error_text =
    MissingFields
  | SessionNotFound
  | ModelApiError int
  | ModelRequestFailed exn
  | DifyApiError int
  | DifyTimeout
  | DifyRequestFailed exn
  | NoProviderConfigured

datatype response_data =
    ErrorData error_text "string option"
  | ChatData chat_message chat_message json string

record response =
  status :: int
  data :: response_data

subsection \<open>The runtime\<close>

text \<open>
  Three things the view leaves to the interpreter and to the database, and which
  this theory leaves open. Every definition below takes them as a parameter and
  every theorem holds for each choice of them:
  \<^item> \<open>int_of_str\<close> is \<^verbatim>\<open>int(s)\<close> of a string, \<open>None\<close> where it raises
    \<^verbatim>\<open>ValueError\<close>;
  \<^item> \<open>str_of\<close> is \<^verbatim>\<open>str(x)\<close> of a float, a list or a dict;
  \<^item> \<open>order_by_created_at_desc\<close> is the order in which the database returns rows
    for \<^verbatim>\<open>.order_by('-created_at')\<close>; among rows with the same time stamp
    the database is free.
\<close>

record runtime =
  int_of_str :: "string \<Rightarrow> int option"
  str_of :: "json \<Rightarrow> string"
  order_by_created_at_desc :: "chat_message list \<Rightarrow> chat_message list"

subsection \<open>Strings and numbers\<close>

text \<open>\<^verbatim>\<open>s.rstrip('/')\<close> and \<^verbatim>\<open>s.endswith(suf)\<close>.\<close>

definition rstrip :: "char \<Rightarrow> string \<Rightarrow> string" where
  "rstrip c s = rev (dropWhile (\<lambda>x. x = c) (rev s))"

definition endswith :: "string \<Rightarrow> string \<Rightarrow> bool" where
  "endswith s suf = (length suf \<le> length s \<and> drop (length s - length suf) s = suf)"

text \<open>\<^verbatim>\<open>str(n)\<close> of an integer: decimal digits, a minus sign when negative.\<close>

definition digit_char :: "nat \<Rightarrow> char" where
  "digit_char d = char_of (48 + d)"

function str_nat :: "nat \<Rightarrow> string" where
  "str_nat n = (if n < 10 then [digit_char n] else str_nat (n div 10) @ [digit_char (n mod 10)])"
  by pat_completeness auto
termination
  by (relation "measure (\<lambda>n. n)") auto

definition str_int :: "int \<Rightarrow> string" where
  "str_int i = (if i < 0 then CHR ''-'' # str_nat (nat (- i)) else str_nat (nat i))"

text \<open>\<^verbatim>\<open>str(x)\<close>\<close>

fun py_str :: "runtime \<Rightarrow> json \<Rightarrow> string" where
  "py_str rt (JVal PNone) = ''None''"
| "py_str rt (JVal (PBool b)) = (if b then ''True'' else ''False'')"
| "py_str rt (JVal (PInt n)) = str_int n"
| "py_str rt (JVal (PStr s)) = s"
| "py_str rt x = str_of rt x"

text \<open>
  \<^verbatim>\<open>int(x)\<close>, by which an integer primary-key column prepares the argument of a
  lookup: a float is truncated towards zero, an infinite float raises
  \<^verbatim>\<open>OverflowError\<close>, a string that is no number and a NaN raise
  \<^verbatim>\<open>ValueError\<close>, and \<^verbatim>\<open>None\<close>, a list and a dict raise \<^verbatim>\<open>TypeError\<close>.
\<close>

fun to_int :: "runtime \<Rightarrow> json \<Rightarrow> exn + int" where
  "to_int rt (JVal PNone) = Inl TypeError"
| "to_int rt (JVal (PBool b)) = Inr (if b then 1 else 0)"
| "to_int rt (JVal (PInt n)) = Inr n"
| "to_int rt (JVal (PFloat (Finite q))) = Inr (if 0 \<le> q then floor q else ceiling q)"
| "to_int rt (JVal (PFloat (Infinity b))) = Inl OverflowError"
| "to_int rt (JVal (PFloat NaN)) = Inl ValueError"
| "to_int rt (JVal (PStr s)) =
     (case int_of_str rt s of None \<Rightarrow> Inl ValueError | Some n \<Rightarrow> Inr n)"
| "to_int rt (JArr xs) = Inl TypeError"
| "to_int rt (JObj kvs) = Inl TypeError"

subsection \<open>Queries\<close>

text \<open>
  \<^verbatim>\<open>Model.objects.get(...)\<close>: the one row that matches, \<^verbatim>\<open>DoesNotExist\<close> when
  there is none, \<^verbatim>\<open>MultipleObjectsReturned\<close> when there are several.
\<close>

definition objects_get :: "('a \<Rightarrow> bool) \<Rightarrow> 'a list \<Rightarrow> exn + 'a" where
  "objects_get P rows =
     (case filter P rows of
        [] \<Rightarrow> Inl DoesNotExist
      | [x] \<Rightarrow> Inr x
      | _ \<Rightarrow> Inl MultipleObjectsReturned)"

text \<open>
  \<^verbatim>\<open>AssistantSession.objects.get(session_id=session_id, user=request.user)\<close>; a
  text column compares with \<^verbatim>\<open>str(value)\<close>.
\<close>

definition get_session :: "runtime \<Rightarrow> store \<Rightarrow> json \<Rightarrow> int \<Rightarrow> exn + assistant_session" where
  "get_session rt st session_id u =
     objects_get (\<lambda>s. s_session_id s = py_str rt session_id \<and> s_user s = u) (sessions st)"

text \<open>
  \<^verbatim>\<open>AIModelConfig.objects.get(id=model_id, is_active=True)\<close>. The argument is
  prepared by \<^verbatim>\<open>int\<close>, whose exception leaves the lookup; \<^verbatim>\<open>None\<close> asks for a
  row without key, which no table has. The primary key identifies at most one row.
\<close>

definition get_ai_config :: "runtime \<Rightarrow> store \<Rightarrow> json \<Rightarrow> exn + ai_model_config" where
  "get_ai_config rt st model_id =
     (if model_id = JVal PNone then Inl DoesNotExist
      else and_then (to_int rt model_id) (\<lambda>n.
             case find (\<lambda>c. c_id c = n \<and> c_is_active c) (ai_configs st) of
               None \<Rightarrow> Inl DoesNotExist
             | Some c \<Rightarrow> Inr c))"

text \<open>\<^verbatim>\<open>DifyConfig.objects.get(id=dify_config_id)\<close>\<close>

definition get_dify_config :: "runtime \<Rightarrow> store \<Rightarrow> json \<Rightarrow> exn + dify_config" where
  "get_dify_config rt st dify_config_id =
     (if dify_config_id = JVal PNone then Inl DoesNotExist
      else and_then (to_int rt dify_config_id) (\<lambda>n.
             case find (\<lambda>d. d_id d = n) (dify_configs st) of
               None \<Rightarrow> Inl DoesNotExist
             | Some d \<Rightarrow> Inr d))"

text \<open>
  Modelled from the spec: the class method \<^verbatim>\<open>DifyConfig.get_active_config\<close> is
  declared in the models module, which is not among the sources. The specification
  calls its result "the registry's currently-active Dify config, if one exists".
\<close>

definition get_active_config :: "store \<Rightarrow> dify_config option" where
  "get_active_config st = find d_is_active (dify_configs st)"

text \<open>\<^verbatim>\<open>AIModelConfig.objects.filter(is_active=True).first()\<close>\<close>

definition first_active_ai_config :: "store \<Rightarrow> ai_model_config option" where
  "first_active_ai_config st = find c_is_active (ai_configs st)"

subsection \<open>Provider resolution (lines 81 to 108)\<close>

text \<open>
  \<^verbatim>\<open>try: x = lookup except (DoesNotExist, ValueError): pass\<close> around a lookup
  (lines 87 to 90 and 94 to 97): the row, or \<open>None\<close> after one of the two caught
  exceptions; any other exception leaves the view.
\<close>

definition try_lookup :: "exn + 'a \<Rightarrow> exn + 'a option" where
  "try_lookup r =
     (case r of
        Inr x \<Rightarrow> Inr (Some x)
      | Inl e \<Rightarrow> if e = DoesNotExist \<or> e = ValueError then Inr None else Inl e)"

text \<open>
  The two variables \<^verbatim>\<open>ai_config\<close> and \<^verbatim>\<open>dify_config\<close> after the four
  \<^verbatim>\<open>if\<close> statements.
\<close>

definition resolve_configs ::
  "runtime \<Rightarrow> store \<Rightarrow> json \<Rightarrow> json \<Rightarrow> exn + ai_model_config option \<times> dify_config option" where
  "resolve_configs rt st model_id dify_config_id =
     and_then (if json_truthy model_id then try_lookup (get_ai_config rt st model_id)
               else Inr None) (\<lambda>ai_config.
     and_then (if ai_config = None \<and> json_truthy dify_config_id
               then try_lookup (get_dify_config rt st dify_config_id)
               else Inr None) (\<lambda>dify_config.
       let dify_config = (if ai_config = None \<and> dify_config = None
                          then get_active_config st else dify_config);
           ai_config = (if ai_config = None \<and> dify_config = None
                        then first_active_ai_config st else ai_config)
       in Inr (ai_config, dify_config)))"

subsection \<open>Operations on a decoded reply body\<close>

text \<open>
  \<^verbatim>\<open>key in x\<close>: a key of a dict, an element of a list, a substring of a string;
  \<^verbatim>\<open>TypeError\<close> on anything else.
\<close>

fun json_contains :: "string \<Rightarrow> json \<Rightarrow> exn + bool" where
  "json_contains k (JObj kvs) = Inr (k \<in> set (map fst kvs))"
| "json_contains k (JArr xs) = Inr (JVal (PStr k) \<in> set xs)"
| "json_contains k (JVal (PStr s)) = Inr (sublist k s)"
| "json_contains k (JVal v) = Inl TypeError"

text \<open>\<^verbatim>\<open>x[key]\<close> with a string key.\<close>

fun subscript_key :: "json \<Rightarrow> string \<Rightarrow> exn + json" where
  "subscript_key (JObj kvs) k = (case map_of kvs k of None \<Rightarrow> Inl KeyError | Some v \<Rightarrow> Inr v)"
| "subscript_key x k = Inl TypeError"

text \<open>
  \<^verbatim>\<open>x[0]\<close>. The first character of a string is its first code point, one to
  four bytes long.
\<close>

definition utf8_width :: "char \<Rightarrow> nat" where
  "utf8_width c =
     (let b = (of_char c :: nat)
      in if b < 0x80 then 1 else if b < 0xE0 then 2 else if b < 0xF0 then 3 else 4)"

fun subscript_0 :: "json \<Rightarrow> exn + json" where
  "subscript_0 (JArr []) = Inl IndexError"
| "subscript_0 (JArr (x # xs)) = Inr x"
| "subscript_0 (JObj kvs) = Inl KeyError"
| "subscript_0 (JVal (PStr [])) = Inl IndexError"
| "subscript_0 (JVal (PStr (c # cs))) = Inr (JVal (PStr (take (utf8_width c) (c # cs))))"
| "subscript_0 (JVal v) = Inl TypeError"

text \<open>\<^verbatim>\<open>len(x)\<close>; the view only compares it with 0.\<close>

fun py_len :: "json \<Rightarrow> exn + nat" where
  "py_len (JArr xs) = Inr (length xs)"
| "py_len (JObj kvs) = Inr (length kvs)"
| "py_len (JVal (PStr s)) = Inr (length s)"
| "py_len (JVal v) = Inl TypeError"

text \<open>\<^verbatim>\<open>x.get(key, default)\<close>: only a dict has the method.\<close>

fun json_get :: "json \<Rightarrow> string \<Rightarrow> json \<Rightarrow> exn + json" where
  "json_get (JObj kvs) k dflt = Inr (case map_of kvs k of None \<Rightarrow> dflt | Some v \<Rightarrow> v)"
| "json_get x k dflt = Inl AttributeError"

text \<open>\<^verbatim>\<open>response.json()\<close>: a body that is no JSON document raises.\<close>

definition response_json :: "http_response \<Rightarrow> exn + json" where
  "response_json r = (case p_json r of None \<Rightarrow> Inl JSONDecodeError | Some j \<Rightarrow> Inr j)"

subsection \<open>Persistence\<close>

text \<open>
  \<^verbatim>\<open>ChatMessage.objects.create(...)\<close>: the new row and the store that holds it.
  The content is a text column that takes no null: \<^verbatim>\<open>None\<close> raises
  \<^verbatim>\<open>IntegrityError\<close> and nothing is stored, any other value is stored as
  \<^verbatim>\<open>str(value)\<close>. The row gets the next primary key and the current time stamp.
  When the view gives no \<^verbatim>\<open>message_id\<close> the caller passes \<^verbatim>\<open>None\<close>, the value
  of a field left unset.
\<close>

definition create_message ::
  "runtime \<Rightarrow> store \<Rightarrow> assistant_session \<Rightarrow> string \<Rightarrow> json \<Rightarrow> json \<Rightarrow> json
     \<Rightarrow> exn + chat_message \<times> store" where
  "create_message rt st session role content conversation_id message_id =
     (if content = JVal PNone then Inl IntegrityError
      else
        let msg = \<lparr> m_id = next_message_id st, m_session = s_id session, m_role = role,
                    m_content = JVal (PStr (py_str rt content)),
                    m_conversation_id = conversation_id,
                    m_message_id = message_id, m_created_at = clock st \<rparr>
        in Inr (msg, st\<lparr> chat_messages := chat_messages st @ [msg],
                         next_message_id := next_message_id st + 1,
                         clock := clock st + 1,
                         trace := trace st @ [CreateMessage msg] \<rparr>))"

text \<open>\<^verbatim>\<open>session.save()\<close>: the row with the session's primary key is replaced.\<close>

definition save_session :: "store \<Rightarrow> assistant_session \<Rightarrow> store" where
  "save_session st session =
     st\<lparr> sessions := map (\<lambda>r. if s_id r = s_id session then session else r) (sessions st),
         trace := trace st @ [SaveSession session] \<rparr>"

definition log_post :: "store \<Rightarrow> http_request \<Rightarrow> store" where
  "log_post st req = st\<lparr> trace := trace st @ [Post req] \<rparr>"

subsection \<open>Context assembly (lines 121 to 144)\<close>

text \<open>
  \<^verbatim>\<open>list(session.chat_messages.all().order_by('-created_at').exclude(id=...)[:10])\<close>
  followed by \<^verbatim>\<open>history_messages.reverse()\<close>. The queryset is evaluated once, as
  one query: the rows of the session without the excluded one, in the database's
  order by descending time stamp, the first ten of them.
\<close>

definition history_messages ::
  "runtime \<Rightarrow> store \<Rightarrow> assistant_session \<Rightarrow> int \<Rightarrow> chat_message list" where
  "history_messages rt st session excluded_id =
     rev (take 10 (order_by_created_at_desc rt
       (filter (\<lambda>m. m_id m \<noteq> excluded_id)
          (filter (\<lambda>m. m_session m = s_id session) (chat_messages st)))))"

text \<open>The content of the fixed system message, as UTF-8 bytes.\<close>

definition system_prompt :: string where
  "system_prompt = map char_of
     ([228, 189, 160, 230, 152, 175, 228, 184, 128, 228, 184, 170, 228, 184, 147, 228, 184, 154, 231, 154,
       132, 232, 189, 175, 228, 187, 182, 230, 181, 139, 232, 175, 149, 229, 138, 169, 230, 137, 139, 40,
       65, 73, 232, 175, 132, 230, 181, 139, 229, 184, 136, 41, 239, 188, 140, 229, 143, 175, 228, 187,
       165, 229, 141, 143, 229, 138, 169, 231, 148, 168, 230, 136, 183, 232, 191, 155, 232, 161, 140, 230,
       181, 139, 232, 175, 149, 231, 148, 168, 228, 190, 139, 229, 136, 134, 230, 158, 144, 227, 128, 129,
       231, 188, 150, 229, 134, 153, 227, 128, 129, 232, 175, 132, 229, 174, 161, 228, 187, 165, 229, 143,
       138, 229, 155, 158, 231, 173, 148, 228, 184, 128, 232, 136, 172, 231, 154, 132, 230, 181, 139, 232,
       175, 149, 231, 155, 184, 229, 133, 179, 233, 151, 174, 233, 162, 152, 227, 128, 130] :: nat list)"

definition role_content :: "string \<Rightarrow> json \<Rightarrow> json" where
  "role_content role content = JObj [(''role'', JVal (PStr role)), (''content'', content)]"

text \<open>The loop \<^verbatim>\<open>for msg in history_messages: ... messages_payload.append(...)\<close>.\<close>

fun append_history :: "chat_message list \<Rightarrow> json list \<Rightarrow> json list" where
  "append_history [] payload = payload"
| "append_history (msg # rest) payload =
     (let role = (if m_role msg = ''assistant'' then ''assistant'' else ''user'')
      in append_history rest (payload @ [role_content role (m_content msg)]))"

definition messages_payload :: "chat_message list \<Rightarrow> json \<Rightarrow> json list" where
  "messages_payload history message =
     append_history history [role_content ''system'' (JVal (PStr system_prompt))]
       @ [role_content ''user'' message]"

subsection \<open>The request to a model provider (lines 146 to 171)\<close>

definition completion_url :: "string \<Rightarrow> string" where
  "completion_url configured =
     (let base_url = rstrip CHR ''/'' configured
      in if \<not> endswith base_url ''/chat/completions''
         then (if endswith base_url ''/v1''
               then base_url @ ''/chat/completions''
               else base_url @ ''/v1/chat/completions'')
         else base_url)"

definition model_request :: "ai_model_config \<Rightarrow> json list \<Rightarrow> http_request" where
  "model_request ai_config payload_messages =
     \<lparr> q_url = completion_url (c_base_url ai_config),
       q_headers = [(''Authorization'', ''Bearer '' @ c_api_key ai_config),
                    (''Content-Type'', ''application/json'')],
       q_json = JObj [(''model'', JVal (PStr (c_model_name ai_config))),
                      (''messages'', JArr payload_messages),
                      (''temperature'', c_temperature ai_config),
                      (''max_tokens'', JVal (PInt (c_max_tokens ai_config))),
                      (''stream'', JVal (PBool False))],
       q_timeout = 60 \<rparr>"

subsection \<open>The reply of a model provider (lines 173 to 203)\<close>

text \<open>
  Lines 175 to 177: the empty string, replaced by
  \<^verbatim>\<open>api_data['choices'][0]['message']['content']\<close> when \<^verbatim>\<open>'choices' in api_data\<close>
  and \<^verbatim>\<open>len(api_data['choices']) > 0\<close>.
\<close>

definition answer_content :: "json \<Rightarrow> exn + json" where
  "answer_content api_data =
     and_then (json_contains ''choices'' api_data) (\<lambda>has.
       if \<not> has then Inr (JVal (PStr []))
       else and_then (subscript_key api_data ''choices'') (\<lambda>choices.
            and_then (py_len choices) (\<lambda>n.
              if n > 0
              then and_then (subscript_0 choices) (\<lambda>choice.
                   and_then (subscript_key choice ''message'') (\<lambda>msg.
                     subscript_key msg ''content''))
              else Inr (JVal (PStr [])))))"

definition error_response :: "int \<Rightarrow> error_text \<Rightarrow> string option \<Rightarrow> response" where
  "error_response code err detail = \<lparr> status = code, data = ErrorData err detail \<rparr>"

text \<open>
  The branch \<^verbatim>\<open>if ai_config:\<close>. The user's message is created before the
  \<^verbatim>\<open>try\<close>, so an exception of that creation leaves the view; everything after
  it runs inside \<^verbatim>\<open>try ... except Exception\<close>, so every exception there,
  that of the creation of the assistant's message included, ends in the same answer.
\<close>

definition model_path ::
  "runtime \<Rightarrow> (http_request \<Rightarrow> post_result) \<Rightarrow> store \<Rightarrow> assistant_session \<Rightarrow> json
     \<Rightarrow> ai_model_config \<Rightarrow> (exn + response) \<times> store" where
  "model_path rt post st session message ai_config =
     (case create_message rt st session ''user'' message (s_conversation_id session) (JVal PNone) of
        Inl e \<Rightarrow> (Inl e, st)
      | Inr (user_message_obj, st1) \<Rightarrow>
          let history = history_messages rt st1 session (m_id user_message_obj);
              req = model_request ai_config (messages_payload history message);
              st2 = log_post st1 req
          in case post req of
               Raises e \<Rightarrow> (Inr (error_response 500 (ModelRequestFailed e) None), st2)
             | Responds r \<Rightarrow>
                 if p_status_code r = 200
                 then (case and_then (response_json r) (\<lambda>api_data.
                            and_then (answer_content api_data) (\<lambda>answer.
                            and_then (json_get api_data ''id'' (JVal PNone)) (\<lambda>mid.
                              create_message rt st2 session ''assistant'' answer
                                (s_conversation_id session) mid))) of
                         Inl e \<Rightarrow> (Inr (error_response 500 (ModelRequestFailed e) None), st2)
                       | Inr (assistant_message, st3) \<Rightarrow>
                           (Inr \<lparr> status = 200,
                                  data = ChatData user_message_obj assistant_message
                                           (s_conversation_id session) (c_name ai_config) \<rparr>, st3))
                 else (Inr (error_response 500 (ModelApiError (p_status_code r))
                              (Some (p_text r))), st2))"

subsection \<open>The knowledge-base provider (lines 205 to 279)\<close>

definition dify_request :: "dify_config \<Rightarrow> assistant_session \<Rightarrow> int \<Rightarrow> json \<Rightarrow> http_request" where
  "dify_request dify_config session user_id message =
     (let payload = [(''inputs'', JObj []),
                     (''query'', message),
                     (''user'', JVal (PStr (str_int user_id))),
                     (''response_mode'', JVal (PStr ''blocking''))];
          payload = (if json_truthy (s_conversation_id session)
                     then payload @ [(''conversation_id'', s_conversation_id session)]
                     else payload);
          api_url = rstrip CHR ''/'' (d_api_url dify_config)
      in \<lparr> q_url = api_url @ ''/chat-messages'',
            q_headers = [(''Authorization'', ''Bearer '' @ d_api_key dify_config),
                         (''Content-Type'', ''application/json'')],
            q_json = JObj payload,
            q_timeout = 60 \<rparr>)"

text \<open>
  The two handlers of the branch: \<^verbatim>\<open>requests.exceptions.Timeout\<close> first, then
  \<^verbatim>\<open>requests.exceptions.RequestException\<close>, of which the decoding error of
  \<^verbatim>\<open>response.json()\<close> is a subclass; any other exception leaves the view.
\<close>

fun dify_except :: "exn \<Rightarrow> exn + response" where
  "dify_except (Timeout s) = Inr (error_response 408 DifyTimeout None)"
| "dify_except (RequestException s) =
     Inr (error_response 500 (DifyRequestFailed (RequestException s)) None)"
| "dify_except JSONDecodeError = Inr (error_response 500 (DifyRequestFailed JSONDecodeError) None)"
| "dify_except e = Inl e"

text \<open>
  Lines 246 to 249: the session after
  \<^verbatim>\<open>if 'conversation_id' in data and not session.conversation_id\<close>.
\<close>

definition bind_conversation ::
  "store \<Rightarrow> assistant_session \<Rightarrow> json \<Rightarrow> exn + assistant_session \<times> store" where
  "bind_conversation st session reply =
     and_then (json_contains ''conversation_id'' reply) (\<lambda>has.
       if has \<and> \<not> json_truthy (s_conversation_id session)
       then and_then (subscript_key reply ''conversation_id'') (\<lambda>cid.
              let session' = session\<lparr> s_conversation_id := cid \<rparr>
              in Inr (session', save_session st session'))
       else Inr (session, st))"

definition dify_path ::
  "runtime \<Rightarrow> (http_request \<Rightarrow> post_result) \<Rightarrow> store \<Rightarrow> assistant_session \<Rightarrow> int \<Rightarrow> json
     \<Rightarrow> dify_config \<Rightarrow> (exn + response) \<times> store" where
  "dify_path rt post st session user_id message dify_config =
     (case create_message rt st session ''user'' message (s_conversation_id session) (JVal PNone) of
        Inl e \<Rightarrow> (Inl e, st)
      | Inr (user_message, st1) \<Rightarrow>
          let req = dify_request dify_config session user_id message;
              st2 = log_post st1 req
          in case post req of
               Raises e \<Rightarrow> (dify_except e, st2)
             | Responds r \<Rightarrow>
                 if p_status_code r = 200
                 then (case response_json r of
                         Inl e \<Rightarrow> (dify_except e, st2)
                       | Inr reply \<Rightarrow>
                           (case bind_conversation st2 session reply of
                              Inl e \<Rightarrow> (dify_except e, st2)
                            | Inr (session', st3) \<Rightarrow>
                                (case and_then (json_get reply ''answer'' (JVal (PStr []))) (\<lambda>answer.
                                      and_then (json_get reply ''conversation_id'' (JVal PNone)) (\<lambda>cid.
                                      and_then (json_get reply ''message_id'' (JVal PNone)) (\<lambda>mid.
                                      and_then (create_message rt st3 session' ''assistant'' answer
                                                  cid mid) (\<lambda>created.
                                        Inr (cid, created))))) of
                                   Inl e \<Rightarrow> (dify_except e, st3)
                                 | Inr (cid, assistant_message, st4) \<Rightarrow>
                                     (Inr \<lparr> status = 200,
                                            data = ChatData user_message assistant_message cid
                                                     ''Dify Knowledge Base'' \<rparr>, st4))))
                 else (Inr (error_response 500 (DifyApiError (p_status_code r))
                              (Some (p_text r))), st2))"

subsection \<open>The view (lines 56 to 286)\<close>

definition send_message ::
  "runtime \<Rightarrow> (http_request \<Rightarrow> post_result) \<Rightarrow> request \<Rightarrow> store \<Rightarrow> (exn + response) \<times> store" where
  "send_message rt post request st =
     (let session_id = data_get (r_data request) ''session_id'';
          message = data_get (r_data request) ''message'';
          model_id = data_get (r_data request) ''model_id'';
          dify_config_id = data_get (r_data request) ''dify_config_id''
      in if \<not> json_truthy session_id \<or> \<not> json_truthy message
         then (Inr (error_response 400 MissingFields None), st)
         else (case get_session rt st session_id (r_user request) of
                 Inl DoesNotExist \<Rightarrow> (Inr (error_response 404 SessionNotFound None), st)
               | Inl e \<Rightarrow> (Inl e, st)
               | Inr session \<Rightarrow>
                   (case resolve_configs rt st model_id dify_config_id of
                      Inl e \<Rightarrow> (Inl e, st)
                    | Inr (Some ai_config, dify_config) \<Rightarrow>
                        model_path rt post st session message ai_config
                    | Inr (None, Some dify_config) \<Rightarrow>
                        dify_path rt post st session (r_user request) message dify_config
                    | Inr (None, None) \<Rightarrow>
                        (Inr (error_response 400 NoProviderConfigured None), st))))"

section \<open>The specification's vocabulary\<close>

text \<open>
  The branch the view takes at \<^verbatim>\<open>if ai_config: ... elif dify_config: ... else:\<close>
  (lines 111, 206 and 282), when the resolution raises nothing.
\<close>

datatype provider = UseModel ai_model_config | UseDify dify_config | NoProvider

definition selected_provider :: "runtime \<Rightarrow> store \<Rightarrow> json \<Rightarrow> json \<Rightarrow> exn + provider" where
  "selected_provider rt st model_id dify_config_id =
     and_then (resolve_configs rt st model_id dify_config_id) (\<lambda>(ai_config, dify_config).
       Inr (case ai_config of
              Some c \<Rightarrow> UseModel c
            | None \<Rightarrow> (case dify_config of Some d \<Rightarrow> UseDify d | None \<Rightarrow> NoProvider)))"

text \<open>
  The resolution order as the specification words it, first match winning. A
  reference is explicit when the request carries a value for it that counts as
  true (\<^verbatim>\<open>None\<close>, the empty string, zero, \<^verbatim>\<open>False\<close>, the empty list and the
  empty dict do not).
\<close>

definition explicit_model :: "runtime \<Rightarrow> store \<Rightarrow> json \<Rightarrow> ai_model_config option" where
  "explicit_model rt st model_id =
     (if json_truthy model_id
      then find (\<lambda>c. to_int rt model_id = Inr (c_id c) \<and> c_is_active c) (ai_configs st)
      else None)"

definition explicit_dify :: "runtime \<Rightarrow> store \<Rightarrow> json \<Rightarrow> dify_config option" where
  "explicit_dify rt st dify_config_id =
     (if json_truthy dify_config_id
      then find (\<lambda>d. to_int rt dify_config_id = Inr (d_id d)) (dify_configs st)
      else None)"

definition resolution_order :: "runtime \<Rightarrow> store \<Rightarrow> json \<Rightarrow> json \<Rightarrow> provider" where
  "resolution_order rt st model_id dify_config_id =
     (case explicit_model rt st model_id of
        Some c \<Rightarrow> UseModel c
      | None \<Rightarrow>
     (case explicit_dify rt st dify_config_id of
        Some d \<Rightarrow> UseDify d
      | None \<Rightarrow>
     (case find d_is_active (dify_configs st) of
        Some d \<Rightarrow> UseDify d
      | None \<Rightarrow>
     (case find c_is_active (ai_configs st) of
        Some c \<Rightarrow> UseModel c
      | None \<Rightarrow> NoProvider))))"

text \<open>
  A plain reference: absent or empty, or a string, an integer, a boolean or a float
  that is not infinite. A non-empty list, a non-empty dict and an infinite float
  are the references that are not plain.
\<close>

fun plain_reference :: "json \<Rightarrow> bool" where
  "plain_reference (JVal (PFloat (Infinity b))) = False"
| "plain_reference (JVal v) = True"
| "plain_reference (JArr xs) = (xs = [])"
| "plain_reference (JObj kvs) = (kvs = [])"

text \<open>The outbound call fails: an exception, or an answer whose status is not 200.\<close>

fun call_fails :: "post_result \<Rightarrow> bool" where
  "call_fails (Raises e) = True"
| "call_fails (Responds r) = (p_status_code r \<noteq> 200)"

text \<open>
  The row the view creates for the user's message, and the store that holds it.
\<close>

definition user_message_row :: "runtime \<Rightarrow> store \<Rightarrow> assistant_session \<Rightarrow> json \<Rightarrow> chat_message" where
  "user_message_row rt st session message =
     \<lparr> m_id = next_message_id st, m_session = s_id session, m_role = ''user'',
       m_content = JVal (PStr (py_str rt message)),
       m_conversation_id = s_conversation_id session,
       m_message_id = JVal PNone, m_created_at = clock st \<rparr>"

definition with_user_message :: "runtime \<Rightarrow> store \<Rightarrow> assistant_session \<Rightarrow> json \<Rightarrow> store" where
  "with_user_message rt st session message =
     st\<lparr> chat_messages := chat_messages st @ [user_message_row rt st session message],
         next_message_id := next_message_id st + 1,
         clock := clock st + 1,
         trace := trace st @ [CreateMessage (user_message_row rt st session message)] \<rparr>"

text \<open>The context the model path assembles for a session and a message.\<close>

definition model_context :: "runtime \<Rightarrow> store \<Rightarrow> assistant_session \<Rightarrow> json \<Rightarrow> json list" where
  "model_context rt st session message =
     messages_payload
       (history_messages rt (with_user_message rt st session message) session
          (m_id (user_message_row rt st session message)))
       message"

text \<open>The messages a session has before the request, as the table lists them.\<close>

definition prior_messages :: "store \<Rightarrow> assistant_session \<Rightarrow> chat_message list" where
  "prior_messages st session =
     filter (\<lambda>m. m_session m = s_id session) (chat_messages st)"

text \<open>
  The database orders a list of rows by descending time stamp: it returns the same
  rows, each as often as it is listed, and no row before one with a later time stamp.
\<close>

definition orders_by_created_at_desc :: "runtime \<Rightarrow> chat_message list \<Rightarrow> bool" where
  "orders_by_created_at_desc rt ms =
     (mset (order_by_created_at_desc rt ms) = mset ms
      \<and> sorted (rev (map m_created_at (order_by_created_at_desc rt ms))))"

text \<open>
  The request succeeds with a reply: the answer has status 200 and carries an
  assistant message with the given content, and the message log has grown by the
  user's message and that assistant message.
\<close>

fun replied_with :: "(exn + response) \<times> store \<Rightarrow> store \<Rightarrow> json \<Rightarrow> bool" where
  "replied_with (Inr resp, st') st content =
     (case data resp of
        ChatData um am cid used \<Rightarrow>
          status resp = 200 \<and> m_role am = ''assistant'' \<and> m_content am = content
          \<and> chat_messages st' = chat_messages st @ [um, am]
      | ErrorData err detail \<Rightarrow> False)"
| "replied_with (Inl e, st') st content = False"

section \<open>Example data\<close>

text \<open>
  An example of \<^verbatim>\<open>int\<close> on strings, for strings of ASCII characters: surrounding
  white space is dropped, one sign is allowed, the digits may be grouped by single
  underscores.
\<close>

definition is_space :: "char \<Rightarrow> bool" where
  "is_space c = (c \<in> set [CHR 0x20, CHR 0x09, CHR 0x0A, CHR 0x0B, CHR 0x0C, CHR 0x0D])"

definition strip :: "string \<Rightarrow> string" where
  "strip s = rev (dropWhile is_space (rev (dropWhile is_space s)))"

definition is_digit :: "char \<Rightarrow> bool" where
  "is_digit c = (48 \<le> (of_char c :: nat) \<and> (of_char c :: nat) \<le> 57)"

fun parse_digits :: "bool \<Rightarrow> nat \<Rightarrow> string \<Rightarrow> nat option" where
  "parse_digits prev acc [] = (if prev then Some acc else None)"
| "parse_digits prev acc (c # cs) =
     (if is_digit c then parse_digits True (acc * 10 + (of_char c - 48)) cs
      else if c = CHR ''_'' \<and> prev then parse_digits False acc cs
      else None)"

definition example_int_of_str :: "string \<Rightarrow> int option" where
  "example_int_of_str s =
     (case strip s of
        [] \<Rightarrow> None
      | c # cs \<Rightarrow>
          if c = CHR ''-'' then map_option (\<lambda>n. - int n) (parse_digits False 0 cs)
          else if c = CHR ''+'' then map_option int (parse_digits False 0 cs)
          else map_option int (parse_digits False 0 (c # cs)))"

text \<open>
  An example runtime: the example of \<^verbatim>\<open>int\<close>, a placeholder for the text of a
  float, a list or a dict, and a database that breaks ties by taking the later row
  of the table first.
\<close>

definition example_runtime :: runtime where
  "example_runtime =
     \<lparr> int_of_str = example_int_of_str,
       str_of = (\<lambda>x. ''<object>''),
       order_by_created_at_desc = (\<lambda>ms. rev (sort_key m_created_at ms)) \<rparr>"

definition example_session :: assistant_session where
  "example_session =
     \<lparr> s_id = 1, s_session_id = ''s1'', s_user = 7, s_conversation_id = JVal PNone \<rparr>"

definition example_system_message :: chat_message where
  "example_system_message =
     \<lparr> m_id = 1, m_session = 1, m_role = ''system'', m_content = JVal (PStr ''be brief''),
       m_conversation_id = JVal PNone, m_message_id = JVal PNone, m_created_at = 1 \<rparr>"

definition example_assistant_message :: chat_message where
  "example_assistant_message =
     \<lparr> m_id = 2, m_session = 1, m_role = ''assistant'', m_content = JVal (PStr ''hello''),
       m_conversation_id = JVal PNone, m_message_id = JVal PNone, m_created_at = 2 \<rparr>"

definition example_model :: ai_model_config where
  "example_model =
     \<lparr> c_id = 1, c_name = ''gpt'', c_api_key = ''k'', c_base_url = ''https://api.x.com/v1'',
       c_model_name = ''m'', c_temperature = JVal (PInt 1), c_max_tokens = 100,
       c_is_active = True \<rparr>"

definition example_dify :: dify_config where
  "example_dify =
     \<lparr> d_id = 2, d_api_key = ''dk'', d_api_url = ''https://dify.x.com/v1/'',
       d_is_active = False \<rparr>"

definition example_store :: store where
  "example_store =
     \<lparr> sessions = [example_session],
       chat_messages = [example_system_message, example_assistant_message],
       ai_configs = [example_model], dify_configs = [example_dify],
       next_message_id = 3, clock = 3, trace = [] \<rparr>"

text \<open>
  A request of user 7 in the example session with the message \<open>hi\<close> and the given
  references, first as any JSON values, then as scalars.
\<close>

definition example_request_with :: "json \<Rightarrow> json \<Rightarrow> request" where
  "example_request_with model_id dify_config_id =
     \<lparr> r_user = 7,
       r_data = [''session_id'' \<mapsto> JVal (PStr ''s1''), ''message'' \<mapsto> JVal (PStr ''hi''),
                 ''model_id'' \<mapsto> model_id, ''dify_config_id'' \<mapsto> dify_config_id] \<rparr>"

definition example_request :: "pyval \<Rightarrow> pyval \<Rightarrow> request" where
  "example_request model_id dify_config_id =
     example_request_with (JVal model_id) (JVal dify_config_id)"

definition example_reply :: "int \<Rightarrow> json \<Rightarrow> http_request \<Rightarrow> post_result" where
  "example_reply code body q =
     Responds \<lparr> p_status_code = code, p_text = ''overloaded'', p_json = Some body \<rparr>"

text \<open>The example store with a second, active Dify configuration.\<close>

definition example_store_active_dify :: store where
  "example_store_active_dify =
     example_store\<lparr> dify_configs := [example_dify, example_dify\<lparr> d_id := 3, d_is_active := True \<rparr>] \<rparr>"

text \<open>The example store with its model configuration inactive and no Dify configuration.\<close>

definition example_store_unconfigured :: store where
  "example_store_unconfigured =
     example_store\<lparr> ai_configs := [example_model\<lparr> c_is_active := False \<rparr>], dify_configs := [] \<rparr>"

text \<open>A store whose session has twelve messages, created at times 1 to 12.\<close>

definition example_store_long :: store where
  "example_store_long =
     example_store\<lparr> chat_messages :=
       map (\<lambda>i. \<lparr> m_id = int i, m_session = 1, m_role = ''user'', m_content = JVal (PInt (int i)),
                   m_conversation_id = JVal PNone, m_message_id = JVal PNone, m_created_at = i \<rparr>)
         [1 ..< 13],
       next_message_id := 13, clock := 13 \<rparr>"

text \<open>A knowledge-base provider that answers 200 with the given conversation id.\<close>

definition example_dify_reply :: "string \<Rightarrow> http_request \<Rightarrow> post_result" where
  "example_dify_reply cid =
     example_reply 200
       (JObj [(''conversation_id'', JVal (PStr cid)), (''answer'', JVal (PStr ''yo''))])"

text \<open>A provider whose answer has a body that is no JSON document.\<close>

definition example_text_reply :: "int \<Rightarrow> string \<Rightarrow> http_request \<Rightarrow> post_result" where
  "example_text_reply code body q =
     Responds \<lparr> p_status_code = code, p_text = body, p_json = None \<rparr>"

section \<open>Properties\<close>

subsection \<open>Strings and URLs\<close>

lemma rstrip_append: "\<exists>k. s = rstrip c s @ replicate k c"
proof -
  have "\<exists>k. xs = replicate k c @ dropWhile (\<lambda>x. x = c) xs" for xs :: string
  proof (induction xs)
    case Nil
    then show ?case by simp
  next
    case (Cons x xs)
    then obtain k where k: "xs = replicate k c @ dropWhile (\<lambda>x. x = c) xs" by blast
    show ?case
    proof (cases "x = c")
      case True
      with k have "x # xs = replicate (Suc k) c @ dropWhile (\<lambda>x. x = c) (x # xs)" by simp
      then show ?thesis by blast
    next
      case False
      then have "x # xs = replicate 0 c @ dropWhile (\<lambda>x. x = c) (x # xs)" by simp
      then show ?thesis by blast
    qed
  qed
  then obtain k where "rev s = replicate k c @ dropWhile (\<lambda>x. x = c) (rev s)" by blast
  then have "rev (rev s) = rev (replicate k c @ dropWhile (\<lambda>x. x = c) (rev s))" by simp
  then have "s = rstrip c s @ replicate k c" by (simp add: rstrip_def)
  then show ?thesis by blast
qed

lemma rstrip_last: "rstrip c s = [] \<or> last (rstrip c s) \<noteq> c"
proof (cases "dropWhile (\<lambda>x. x = c) (rev s)")
  case Nil
  then show ?thesis by (simp add: rstrip_def)
next
  case (Cons y ys)
  then have "y \<noteq> c" using hd_dropWhile [of "\<lambda>x. x = c" "rev s"] by auto
  with Cons show ?thesis by (simp add: rstrip_def)
qed

lemma endswith_suffix: "endswith s suf \<longleftrightarrow> suffix suf s"
proof
  assume "endswith s suf"
  then have "s = take (length s - length suf) s @ suf"
    by (metis append_take_drop_id endswith_def)
  then show "suffix suf s" by (metis suffixI)
next
  assume "suffix suf s"
  then obtain zs where "s = zs @ suf" by (auto simp: suffix_def)
  then show "endswith s suf" by (simp add: endswith_def)
qed

text \<open>
  C7. With the trailing slashes of the configured base URL stripped, the URL of
  the request to a model provider is that stripped URL when it ends in the
  completions path, the stripped URL followed by the completions path when it ends
  in the version segment, and followed by the version segment and the completions
  path otherwise.
\<close>

theorem completion_url_three_cases:
  "(\<exists>k. configured = rstrip CHR ''/'' configured @ replicate k CHR ''/'')
   \<and> (rstrip CHR ''/'' configured = [] \<or> last (rstrip CHR ''/'' configured) \<noteq> CHR ''/'')
   \<and> (suffix ''/chat/completions'' (rstrip CHR ''/'' configured)
        \<longrightarrow> completion_url configured = rstrip CHR ''/'' configured)
   \<and> (\<not> suffix ''/chat/completions'' (rstrip CHR ''/'' configured)
        \<and> suffix ''/v1'' (rstrip CHR ''/'' configured)
        \<longrightarrow> completion_url configured = rstrip CHR ''/'' configured @ ''/chat/completions'')
   \<and> (\<not> suffix ''/chat/completions'' (rstrip CHR ''/'' configured)
        \<and> \<not> suffix ''/v1'' (rstrip CHR ''/'' configured)
        \<longrightarrow> completion_url configured = rstrip CHR ''/'' configured @ ''/v1/chat/completions'')
   \<and> q_url (model_request ai_config payload) = completion_url (c_base_url ai_config)"
  using rstrip_append [of configured "CHR ''/''"] rstrip_last [of "CHR ''/''" configured]
  by (simp add: completion_url_def Let_def endswith_suffix model_request_def)

theorem completion_url_three_cases_witness:
  "completion_url ''https://api.x.com/v1'' = ''https://api.x.com/v1/chat/completions''
   \<and> completion_url ''https://api.x.com/v1/chat/completions//'' = ''https://api.x.com/v1/chat/completions''
   \<and> completion_url ''https://api.x.com/'' = ''https://api.x.com/v1/chat/completions''"
proof -
  have a: "rstrip CHR ''/'' ''https://api.x.com/v1'' = ''https://api.x.com/v1''"
    and b: "rstrip CHR ''/'' ''https://api.x.com/v1/chat/completions//'' = ''https://api.x.com/v1/chat/completions''"
    and c: "rstrip CHR ''/'' ''https://api.x.com/'' = ''https://api.x.com''"
    by (simp_all add: rstrip_def)
  have sa: "\<not> suffix ''/chat/completions'' ''https://api.x.com/v1''" "suffix ''/v1'' ''https://api.x.com/v1''"
    and sb: "suffix ''/chat/completions'' ''https://api.x.com/v1/chat/completions''"
    and sc: "\<not> suffix ''/chat/completions'' ''https://api.x.com''" "\<not> suffix ''/v1'' ''https://api.x.com''"
    by (simp_all add: suffix_to_prefix)
  show ?thesis
    using completion_url_three_cases [of "''https://api.x.com/v1''"]
      completion_url_three_cases [of "''https://api.x.com/v1/chat/completions//''"]
      completion_url_three_cases [of "''https://api.x.com/''"]
    unfolding a b c using sa sb sc by simp
qed

subsection \<open>Context assembly\<close>

lemma append_history_map:
  "append_history history payload =
     payload @ map (\<lambda>m. role_content (if m_role m = ''assistant'' then ''assistant'' else ''user'') (m_content m)) history"
  by (induction history arbitrary: payload) (simp_all add: Let_def)

lemma messages_payload_eq:
  "messages_payload history message =
     role_content ''system'' (JVal (PStr system_prompt))
       # map (\<lambda>m. role_content (if m_role m = ''assistant'' then ''assistant'' else ''user'') (m_content m)) history
       @ [role_content ''user'' message]"
  by (simp add: messages_payload_def append_history_map)

text \<open>
  C9. Every historical message is forwarded with the role \<open>assistant\<close> exactly
  when its stored role is \<open>assistant\<close>, with the role \<open>user\<close> for every other
  stored role, and with its stored content unchanged.
\<close>

theorem history_roles_forwarded:
  "i < length history \<Longrightarrow>
     messages_payload history message ! Suc i =
       JObj [(''role'', JVal (PStr (if m_role (history ! i) = ''assistant'' then ''assistant'' else ''user''))),
             (''content'', m_content (history ! i))]"
  by (simp add: messages_payload_eq nth_append role_content_def)

theorem history_roles_forwarded_witness:
  "messages_payload [example_system_message, example_assistant_message] (JVal (PStr ''hi'')) ! 1 =
     JObj [(''role'', JVal (PStr ''user'')), (''content'', JVal (PStr ''be brief''))]
   \<and> messages_payload [example_system_message, example_assistant_message] (JVal (PStr ''hi'')) ! 2 =
     JObj [(''role'', JVal (PStr ''assistant'')), (''content'', JVal (PStr ''hello''))]"
  using history_roles_forwarded [of 0 "[example_system_message, example_assistant_message]" "JVal (PStr ''hi'')"]
    history_roles_forwarded [of 1 "[example_system_message, example_assistant_message]" "JVal (PStr ''hi'')"]
  by (simp add: example_system_message_def example_assistant_message_def numeral_2_eq_2)

subsection \<open>Provider resolution\<close>

lemma find_False: "find (\<lambda>x. False) xs = None"
  by (induction xs) simp_all

lemma truthy_not_none: "json_truthy v \<Longrightarrow> v \<noteq> JVal PNone"
  by auto

lemma plain_to_int:
  assumes "plain_reference v" and "json_truthy v"
  shows "(\<exists>n. to_int rt v = Inr n) \<or> to_int rt v = Inl ValueError"
proof (cases v)
  case (JVal x)
  show ?thesis
  proof (cases x)
    case (PFloat f)
    with JVal assms(1) show ?thesis by (cases f) simp_all
  next
    case (PStr s)
    with JVal show ?thesis by (cases "int_of_str rt s") simp_all
  qed (use JVal assms(2) in simp_all)
next
  case (JArr xs)
  with assms show ?thesis by simp
next
  case (JObj kvs)
  with assms show ?thesis by simp
qed

lemma try_lookup_find:
  "try_lookup (case r of None \<Rightarrow> Inl DoesNotExist | Some x \<Rightarrow> Inr x) = Inr r"
  by (cases r) (simp_all add: try_lookup_def)

lemma try_lookup_model:
  assumes "plain_reference model_id" and "json_truthy model_id"
  shows "try_lookup (get_ai_config rt st model_id) =
     Inr (find (\<lambda>c. to_int rt model_id = Inr (c_id c) \<and> c_is_active c) (ai_configs st))"
proof -
  have n: "model_id \<noteq> JVal PNone" using assms(2) by (rule truthy_not_none)
  from plain_to_int [OF assms, of rt] show ?thesis
  proof
    assume "\<exists>n. to_int rt model_id = Inr n"
    then obtain k where k: "to_int rt model_id = Inr k" by blast
    have "find (\<lambda>c. c_id c = k \<and> c_is_active c) (ai_configs st) =
        find (\<lambda>c. k = c_id c \<and> c_is_active c) (ai_configs st)"
      by (rule find_cong) auto
    with n k show ?thesis
      by (simp add: get_ai_config_def and_then_def try_lookup_find)
  next
    assume "to_int rt model_id = Inl ValueError"
    with n show ?thesis
      by (simp add: get_ai_config_def and_then_def try_lookup_def find_False)
  qed
qed

lemma try_lookup_dify:
  assumes "plain_reference dify_config_id" and "json_truthy dify_config_id"
  shows "try_lookup (get_dify_config rt st dify_config_id) =
     Inr (find (\<lambda>d. to_int rt dify_config_id = Inr (d_id d)) (dify_configs st))"
proof -
  have n: "dify_config_id \<noteq> JVal PNone" using assms(2) by (rule truthy_not_none)
  from plain_to_int [OF assms, of rt] show ?thesis
  proof
    assume "\<exists>n. to_int rt dify_config_id = Inr n"
    then obtain k where k: "to_int rt dify_config_id = Inr k" by blast
    have "find (\<lambda>d. d_id d = k) (dify_configs st) =
        find (\<lambda>d. k = d_id d) (dify_configs st)"
      by (rule find_cong) auto
    with n k show ?thesis
      by (simp add: get_dify_config_def and_then_def try_lookup_find)
  next
    assume "to_int rt dify_config_id = Inl ValueError"
    with n show ?thesis
      by (simp add: get_dify_config_def and_then_def try_lookup_def find_False)
  qed
qed

lemma model_stage:
  "plain_reference model_id \<Longrightarrow>
   (if json_truthy model_id then try_lookup (get_ai_config rt st model_id) else Inr None) =
     Inr (explicit_model rt st model_id)"
  by (simp add: explicit_model_def try_lookup_model)

lemma dify_stage:
  "plain_reference dify_config_id \<Longrightarrow>
   (if json_truthy dify_config_id then try_lookup (get_dify_config rt st dify_config_id)
    else Inr None) =
     Inr (explicit_dify rt st dify_config_id)"
  by (simp add: explicit_dify_def try_lookup_dify)

lemma resolve_configs_after_model:
  assumes "plain_reference model_id"
  shows "resolve_configs rt st model_id dify_config_id =
     and_then (if explicit_model rt st model_id = None \<and> json_truthy dify_config_id
               then try_lookup (get_dify_config rt st dify_config_id)
               else Inr None) (\<lambda>dify_config.
       let ai_config = explicit_model rt st model_id;
           dify_config = (if ai_config = None \<and> dify_config = None
                          then get_active_config st else dify_config);
           ai_config = (if ai_config = None \<and> dify_config = None
                        then first_active_ai_config st else ai_config)
       in Inr (ai_config, dify_config))"
  by (simp add: resolve_configs_def model_stage [OF assms] and_then_def Let_def)

lemma resolve_configs_cases:
  assumes "plain_reference model_id"
    and "explicit_model rt st model_id = None \<longrightarrow> plain_reference dify_config_id"
  shows "resolve_configs rt st model_id dify_config_id =
     Inr (case explicit_model rt st model_id of
        Some c \<Rightarrow> (Some c, None)
      | None \<Rightarrow>
     (case explicit_dify rt st dify_config_id of
        Some d \<Rightarrow> (None, Some d)
      | None \<Rightarrow>
     (case get_active_config st of
        Some d \<Rightarrow> (None, Some d)
      | None \<Rightarrow> (first_active_ai_config st, None))))"
proof (cases "explicit_model rt st model_id")
  case (Some c)
  then show ?thesis
    by (simp add: resolve_configs_after_model [OF assms(1)] and_then_def Let_def)
next
  case None
  with assms(2) have "plain_reference dify_config_id" by simp
  from dify_stage [OF this, of rt st] None show ?thesis
    by (simp add: resolve_configs_after_model [OF assms(1)] and_then_def Let_def
        split: option.split)
qed

lemma selected_provider_order:
  assumes "plain_reference model_id"
    and "explicit_model rt st model_id = None \<longrightarrow> plain_reference dify_config_id"
  shows "selected_provider rt st model_id dify_config_id =
     Inr (resolution_order rt st model_id dify_config_id)"
  by (simp add: selected_provider_def resolve_configs_cases [OF assms] and_then_def
      resolution_order_def get_active_config_def first_active_ai_config_def
      split: option.split)

lemma send_message_dispatch:
  assumes "json_truthy (data_get (r_data request) ''session_id'')"
    and "json_truthy (data_get (r_data request) ''message'')"
    and "get_session rt st (data_get (r_data request) ''session_id'') (r_user request) = Inr session"
  shows "send_message rt post request st =
     (case selected_provider rt st (data_get (r_data request) ''model_id'')
             (data_get (r_data request) ''dify_config_id'') of
        Inl e \<Rightarrow> (Inl e, st)
      | Inr (UseModel ai_config) \<Rightarrow>
          model_path rt post st session (data_get (r_data request) ''message'') ai_config
      | Inr (UseDify dify_config) \<Rightarrow>
          dify_path rt post st session (r_user request) (data_get (r_data request) ''message'')
            dify_config
      | Inr NoProvider \<Rightarrow> (Inr (error_response 400 NoProviderConfigured None), st))"
  using assms
  by (simp add: send_message_def Let_def selected_provider_def and_then_def
      split: sum.split prod.split option.split)

text \<open>
  C1, as the view has it. For a request with a valid session whose references, as
  far as the view looks them up, are plain, the view dispatches by the resolution
  order: the explicit model configuration if it resolves to an active one, otherwise
  the explicit Dify configuration whatever its active flag, otherwise the active Dify
  configuration, otherwise the first active model configuration, and otherwise it
  answers 400 with the no-provider-configured error.
\<close>

theorem provider_resolution_order:
  assumes "json_truthy (data_get (r_data request) ''session_id'')"
    and "json_truthy (data_get (r_data request) ''message'')"
    and "get_session rt st (data_get (r_data request) ''session_id'') (r_user request) = Inr session"
    and "plain_reference (data_get (r_data request) ''model_id'')"
    and "explicit_model rt st (data_get (r_data request) ''model_id'') = None
         \<longrightarrow> plain_reference (data_get (r_data request) ''dify_config_id'')"
  shows "send_message rt post request st =
     (case resolution_order rt st (data_get (r_data request) ''model_id'')
             (data_get (r_data request) ''dify_config_id'') of
        UseModel ai_config \<Rightarrow>
          model_path rt post st session (data_get (r_data request) ''message'') ai_config
      | UseDify dify_config \<Rightarrow>
          dify_path rt post st session (r_user request) (data_get (r_data request) ''message'')
            dify_config
      | NoProvider \<Rightarrow> (Inr (error_response 400 NoProviderConfigured None), st))"
  unfolding send_message_dispatch [OF assms(1-3)] selected_provider_order [OF assms(4,5)]
  by simp

lemma example_request_fields:
  "data_get (r_data (example_request_with a b)) ''session_id'' = JVal (PStr ''s1'')"
  "data_get (r_data (example_request_with a b)) ''message'' = JVal (PStr ''hi'')"
  "data_get (r_data (example_request_with a b)) ''model_id'' = a"
  "data_get (r_data (example_request_with a b)) ''dify_config_id'' = b"
  "r_user (example_request_with a b) = 7"
  "data_get (r_data (example_request c d)) ''session_id'' = JVal (PStr ''s1'')"
  "data_get (r_data (example_request c d)) ''message'' = JVal (PStr ''hi'')"
  "data_get (r_data (example_request c d)) ''model_id'' = JVal c"
  "data_get (r_data (example_request c d)) ''dify_config_id'' = JVal d"
  "r_user (example_request c d) = 7"
  by (simp_all add: example_request_def example_request_with_def data_get_def)

lemma example_get_session:
  "get_session rt example_store (JVal (PStr ''s1'')) 7 = Inr example_session"
  "get_session rt example_store_active_dify (JVal (PStr ''s1'')) 7 = Inr example_session"
  "get_session rt example_store_unconfigured (JVal (PStr ''s1'')) 7 = Inr example_session"
  by (simp_all add: get_session_def objects_get_def example_store_def example_session_def
      example_store_active_dify_def example_store_unconfigured_def)

lemma example_resolution:
  "resolution_order example_runtime example_store (JVal (PInt 1)) (JVal (PStr ''2'')) =
     UseModel example_model"
  "resolution_order example_runtime example_store (JVal (PStr ''abc'')) (JVal (PStr ''2'')) =
     UseDify example_dify"
  "resolution_order example_runtime example_store_active_dify (JVal PNone) (JVal PNone) =
     UseDify (example_dify\<lparr> d_id := 3, d_is_active := True \<rparr>)"
  "resolution_order example_runtime example_store (JVal PNone) (JVal PNone) =
     UseModel example_model"
  "resolution_order example_runtime example_store_unconfigured (JVal (PInt 1)) (JVal (PInt 2)) =
     NoProvider"
  by code_simp+

theorem provider_resolution_order_witness:
  "send_message example_runtime (example_reply 200 (JObj [])) (example_request (PInt 1) (PStr ''2''))
       example_store =
     model_path example_runtime (example_reply 200 (JObj [])) example_store example_session
       (JVal (PStr ''hi'')) example_model
   \<and> send_message example_runtime (example_reply 200 (JObj []))
       (example_request (PStr ''abc'') (PStr ''2'')) example_store =
     dify_path example_runtime (example_reply 200 (JObj [])) example_store example_session 7
       (JVal (PStr ''hi'')) example_dify
   \<and> send_message example_runtime (example_reply 200 (JObj [])) (example_request PNone PNone)
       example_store_active_dify =
     dify_path example_runtime (example_reply 200 (JObj [])) example_store_active_dify
       example_session 7 (JVal (PStr ''hi'')) (example_dify\<lparr> d_id := 3, d_is_active := True \<rparr>)
   \<and> send_message example_runtime (example_reply 200 (JObj [])) (example_request PNone PNone)
       example_store =
     model_path example_runtime (example_reply 200 (JObj [])) example_store example_session
       (JVal (PStr ''hi'')) example_model
   \<and> send_message example_runtime (example_reply 200 (JObj [])) (example_request (PInt 1) (PInt 2))
       example_store_unconfigured =
     (Inr (error_response 400 NoProviderConfigured None), example_store_unconfigured)"
  using
    provider_resolution_order [of "example_request (PInt 1) (PStr ''2'')" example_runtime
      example_store example_session]
    provider_resolution_order [of "example_request (PStr ''abc'') (PStr ''2'')" example_runtime
      example_store example_session]
    provider_resolution_order [of "example_request PNone PNone" example_runtime
      example_store_active_dify example_session]
    provider_resolution_order [of "example_request PNone PNone" example_runtime
      example_store example_session]
    provider_resolution_order [of "example_request (PInt 1) (PInt 2)" example_runtime
      example_store_unconfigured example_session]
  by (simp add: example_request_fields example_get_session example_resolution)

text \<open>
  The claim as stated fails: a list as the model reference raises
  \<^verbatim>\<open>TypeError\<close> in the lookup of line 88, which line 89 does not catch. The
  exception leaves the view, where the order of the claim prescribes the first
  active model configuration.
\<close>

theorem provider_resolution_order_counterexample:
  "send_message example_runtime (example_reply 200 (JObj []))
       (example_request_with (JArr [JVal (PInt 1)]) (JVal PNone)) example_store =
     (Inl TypeError, example_store)
   \<and> resolution_order example_runtime example_store (JArr [JVal (PInt 1)]) (JVal PNone) =
       UseModel example_model"
proof -
  have "resolve_configs example_runtime example_store (JArr [JVal (PInt 1)]) (JVal PNone) =
      Inl TypeError"
    by (simp add: resolve_configs_def get_ai_config_def and_then_def try_lookup_def)
  moreover have "resolution_order example_runtime example_store (JArr [JVal (PInt 1)]) (JVal PNone) =
       UseModel example_model"
    by (simp add: resolution_order_def explicit_model_def explicit_dify_def example_store_def
        example_model_def example_dify_def)
  ultimately show ?thesis
    by (simp add: send_message_def Let_def example_request_fields example_get_session)
qed

lemma explicit_model_None:
  "\<not> (\<exists>c \<in> set (ai_configs st). to_int rt model_id = Inr (c_id c) \<and> c_is_active c)
   \<Longrightarrow> explicit_model rt st model_id = None"
  by (auto simp: explicit_model_def find_None_iff)

lemma explicit_dify_None:
  "\<not> (\<exists>d \<in> set (dify_configs st). to_int rt dify_config_id = Inr (d_id d))
   \<Longrightarrow> explicit_dify rt st dify_config_id = None"
  by (auto simp: explicit_dify_def find_None_iff)

lemma explicit_absent [simp]:
  "explicit_model rt st (JVal PNone) = None" "explicit_dify rt st (JVal PNone) = None"
  by (simp_all add: explicit_model_def explicit_dify_def)

lemma data_get_removed:
  "data_get (d(k := None)) k = JVal PNone"
  "k' \<noteq> k \<Longrightarrow> data_get (d(k := None)) k' = data_get d k'"
  by (simp_all add: data_get_def)

lemma get_dify_config_found:
  assumes "find (\<lambda>d. to_int rt dify_config_id = Inr (d_id d)) (dify_configs st) = Some dify_config"
    and "json_truthy dify_config_id"
  shows "get_dify_config rt st dify_config_id = Inr dify_config"
proof -
  have n: "dify_config_id \<noteq> JVal PNone" using assms(2) by (rule truthy_not_none)
  from assms(1) have k: "to_int rt dify_config_id = Inr (d_id dify_config)"
    by (auto simp: find_Some_iff)
  have "find (\<lambda>d. d_id d = d_id dify_config) (dify_configs st) =
      find (\<lambda>d. to_int rt dify_config_id = Inr (d_id d)) (dify_configs st)"
    by (rule find_cong) (auto simp: k)
  with assms(1) n k show ?thesis
    by (simp add: get_dify_config_def and_then_def)
qed

lemma send_message_same_resolution:
  assumes "resolve_configs rt st (data_get (r_data request) ''model_id'')
              (data_get (r_data request) ''dify_config_id'') =
            resolve_configs rt st (data_get (r_data request') ''model_id'')
              (data_get (r_data request') ''dify_config_id'')"
    and "data_get (r_data request') ''session_id'' = data_get (r_data request) ''session_id''"
    and "data_get (r_data request') ''message'' = data_get (r_data request) ''message''"
    and "r_user request' = r_user request"
  shows "send_message rt post request st = send_message rt post request' st"
  unfolding send_message_def Let_def assms(2-4) assms(1) by (rule refl)

text \<open>
  C2, as the view has it. An explicit reference that is plain and does not resolve
  (the value is no number, no row has that key, or the model configuration with
  that key is inactive) is ignored: the view answers as it does to the same request
  without the reference. In particular an invalid plain model reference with a
  valid Dify reference dispatches to that Dify configuration.
\<close>

theorem invalid_reference_ignored:
  "(plain_reference (data_get (r_data request) ''model_id'')
      \<and> \<not> (\<exists>c \<in> set (ai_configs st).
          to_int rt (data_get (r_data request) ''model_id'') = Inr (c_id c) \<and> c_is_active c)
      \<longrightarrow> send_message rt post request st =
            send_message rt post (request\<lparr> r_data := (r_data request)(''model_id'' := None) \<rparr>) st)
   \<and> (plain_reference (data_get (r_data request) ''dify_config_id'')
      \<and> \<not> (\<exists>d \<in> set (dify_configs st).
          to_int rt (data_get (r_data request) ''dify_config_id'') = Inr (d_id d))
      \<longrightarrow> send_message rt post request st =
            send_message rt post (request\<lparr> r_data := (r_data request)(''dify_config_id'' := None) \<rparr>) st)
   \<and> (plain_reference (data_get (r_data request) ''model_id'')
      \<and> \<not> (\<exists>c \<in> set (ai_configs st).
          to_int rt (data_get (r_data request) ''model_id'') = Inr (c_id c) \<and> c_is_active c)
      \<and> json_truthy (data_get (r_data request) ''dify_config_id'')
      \<and> find (\<lambda>d. to_int rt (data_get (r_data request) ''dify_config_id'') = Inr (d_id d))
           (dify_configs st) = Some dify_config
      \<and> json_truthy (data_get (r_data request) ''session_id'')
      \<and> json_truthy (data_get (r_data request) ''message'')
      \<and> get_session rt st (data_get (r_data request) ''session_id'') (r_user request) = Inr session
      \<longrightarrow> send_message rt post request st =
            dify_path rt post st session (r_user request) (data_get (r_data request) ''message'')
              dify_config)"
proof (intro conjI impI)
  assume a: "plain_reference (data_get (r_data request) ''model_id'')
      \<and> \<not> (\<exists>c \<in> set (ai_configs st).
          to_int rt (data_get (r_data request) ''model_id'') = Inr (c_id c) \<and> c_is_active c)"
  then have "explicit_model rt st (data_get (r_data request) ''model_id'') = None"
    by (simp add: explicit_model_None)
  with a have "resolve_configs rt st (data_get (r_data request) ''model_id'') dify_config_id =
      resolve_configs rt st (JVal PNone) dify_config_id" for dify_config_id
    by (simp add: resolve_configs_after_model)
  then show "send_message rt post request st =
      send_message rt post (request\<lparr> r_data := (r_data request)(''model_id'' := None) \<rparr>) st"
    by (intro send_message_same_resolution) (simp_all add: data_get_removed)
next
  assume a: "plain_reference (data_get (r_data request) ''dify_config_id'')
      \<and> \<not> (\<exists>d \<in> set (dify_configs st).
          to_int rt (data_get (r_data request) ''dify_config_id'') = Inr (d_id d))"
  then have "explicit_dify rt st (data_get (r_data request) ''dify_config_id'') = None"
    by (simp add: explicit_dify_None)
  with a have "(if json_truthy (data_get (r_data request) ''dify_config_id'')
        then try_lookup (get_dify_config rt st (data_get (r_data request) ''dify_config_id''))
        else Inr None) = Inr None"
    by (simp add: dify_stage)
  then have "(if ai_config = None \<and> json_truthy (data_get (r_data request) ''dify_config_id'')
        then try_lookup (get_dify_config rt st (data_get (r_data request) ''dify_config_id''))
        else Inr None) = Inr None" for ai_config :: "ai_model_config option"
    by (cases "json_truthy (data_get (r_data request) ''dify_config_id'')") simp_all
  then have "resolve_configs rt st model_id (data_get (r_data request) ''dify_config_id'') =
      resolve_configs rt st model_id (JVal PNone)" for model_id
    by (simp add: resolve_configs_def)
  then show "send_message rt post request st =
      send_message rt post (request\<lparr> r_data := (r_data request)(''dify_config_id'' := None) \<rparr>) st"
    by (intro send_message_same_resolution) (simp_all add: data_get_removed)
next
  assume a: "plain_reference (data_get (r_data request) ''model_id'')
      \<and> \<not> (\<exists>c \<in> set (ai_configs st).
          to_int rt (data_get (r_data request) ''model_id'') = Inr (c_id c) \<and> c_is_active c)
      \<and> json_truthy (data_get (r_data request) ''dify_config_id'')
      \<and> find (\<lambda>d. to_int rt (data_get (r_data request) ''dify_config_id'') = Inr (d_id d))
           (dify_configs st) = Some dify_config
      \<and> json_truthy (data_get (r_data request) ''session_id'')
      \<and> json_truthy (data_get (r_data request) ''message'')
      \<and> get_session rt st (data_get (r_data request) ''session_id'') (r_user request) = Inr session"
  then have m: "explicit_model rt st (data_get (r_data request) ''model_id'') = None"
    by (simp add: explicit_model_None)
  from a have d: "get_dify_config rt st (data_get (r_data request) ''dify_config_id'') =
      Inr dify_config"
    by (simp add: get_dify_config_found)
  from a m d have "selected_provider rt st (data_get (r_data request) ''model_id'')
      (data_get (r_data request) ''dify_config_id'') = Inr (UseDify dify_config)"
    by (simp add: selected_provider_def resolve_configs_after_model and_then_def try_lookup_def
        Let_def)
  with a show "send_message rt post request st =
      dify_path rt post st session (r_user request) (data_get (r_data request) ''message'')
        dify_config"
    by (simp add: send_message_dispatch)
qed

lemma example_unresolved:
  "\<not> (\<exists>c \<in> set (ai_configs example_store).
        to_int example_runtime (JVal (PStr ''abc'')) = Inr (c_id c) \<and> c_is_active c)"
  "\<not> (\<exists>c \<in> set (ai_configs example_store_unconfigured).
        to_int example_runtime (JVal (PInt 1)) = Inr (c_id c) \<and> c_is_active c)"
  "\<not> (\<exists>d \<in> set (dify_configs example_store).
        to_int example_runtime (JVal (PInt 99)) = Inr (d_id d))"
  "find (\<lambda>d. to_int example_runtime (JVal (PStr ''2'')) = Inr (d_id d)) (dify_configs example_store) =
     Some example_dify"
  by code_simp+

theorem invalid_reference_ignored_witness:
  "send_message example_runtime (example_reply 200 (JObj []))
       (example_request (PStr ''abc'') (PStr ''2'')) example_store =
     send_message example_runtime (example_reply 200 (JObj []))
       ((example_request (PStr ''abc'') (PStr ''2''))
          \<lparr> r_data := (r_data (example_request (PStr ''abc'') (PStr ''2'')))(''model_id'' := None) \<rparr>)
       example_store
   \<and> send_message example_runtime (example_reply 200 (JObj [])) (example_request (PInt 1) PNone)
       example_store_unconfigured =
     send_message example_runtime (example_reply 200 (JObj []))
       ((example_request (PInt 1) PNone)
          \<lparr> r_data := (r_data (example_request (PInt 1) PNone))(''model_id'' := None) \<rparr>)
       example_store_unconfigured
   \<and> send_message example_runtime (example_reply 200 (JObj [])) (example_request PNone (PInt 99))
       example_store =
     send_message example_runtime (example_reply 200 (JObj []))
       ((example_request PNone (PInt 99))
          \<lparr> r_data := (r_data (example_request PNone (PInt 99)))(''dify_config_id'' := None) \<rparr>)
       example_store
   \<and> send_message example_runtime (example_reply 200 (JObj []))
       (example_request (PStr ''abc'') (PStr ''2'')) example_store =
     dify_path example_runtime (example_reply 200 (JObj [])) example_store example_session 7
       (JVal (PStr ''hi'')) example_dify"
proof -
  have a: "send_message example_runtime (example_reply 200 (JObj []))
       (example_request (PStr ''abc'') (PStr ''2'')) example_store =
     send_message example_runtime (example_reply 200 (JObj []))
       ((example_request (PStr ''abc'') (PStr ''2''))
          \<lparr> r_data := (r_data (example_request (PStr ''abc'') (PStr ''2'')))(''model_id'' := None) \<rparr>)
       example_store"
    using example_unresolved(1)
    by (intro invalid_reference_ignored [THEN conjunct1, rule_format])
      (simp add: example_request_fields)
  have b: "send_message example_runtime (example_reply 200 (JObj [])) (example_request (PInt 1) PNone)
       example_store_unconfigured =
     send_message example_runtime (example_reply 200 (JObj []))
       ((example_request (PInt 1) PNone)
          \<lparr> r_data := (r_data (example_request (PInt 1) PNone))(''model_id'' := None) \<rparr>)
       example_store_unconfigured"
    using example_unresolved(2)
    by (intro invalid_reference_ignored [THEN conjunct1, rule_format])
      (simp add: example_request_fields)
  have c: "send_message example_runtime (example_reply 200 (JObj [])) (example_request PNone (PInt 99))
       example_store =
     send_message example_runtime (example_reply 200 (JObj []))
       ((example_request PNone (PInt 99))
          \<lparr> r_data := (r_data (example_request PNone (PInt 99)))(''dify_config_id'' := None) \<rparr>)
       example_store"
    using example_unresolved(3)
    by (intro invalid_reference_ignored [THEN conjunct2, THEN conjunct1, rule_format])
      (simp add: example_request_fields)
  have d: "send_message example_runtime (example_reply 200 (JObj []))
       (example_request (PStr ''abc'') (PStr ''2'')) example_store =
     dify_path example_runtime (example_reply 200 (JObj [])) example_store example_session 7
       (JVal (PStr ''hi'')) example_dify"
    using example_unresolved(1,4)
      invalid_reference_ignored [THEN conjunct2, THEN conjunct2, rule_format,
        of "example_request (PStr ''abc'') (PStr ''2'')" example_store example_runtime
        example_dify example_session "example_reply 200 (JObj [])"]
    by (simp add: example_request_fields example_get_session)
  from a b c d show ?thesis by blast
qed

text \<open>
  The claim as stated fails: a dict as the model reference raises
  \<^verbatim>\<open>TypeError\<close> in the lookup of line 88, which line 89 does not catch, although
  the Dify reference of the same request is valid and the request without the
  model reference dispatches to that Dify configuration.
\<close>

theorem invalid_reference_ignored_counterexample:
  "send_message example_runtime (example_reply 200 (JObj []))
       (example_request_with (JObj [(''id'', JVal (PInt 1))]) (JVal (PStr ''2''))) example_store =
     (Inl TypeError, example_store)
   \<and> get_dify_config example_runtime example_store (JVal (PStr ''2'')) = Inr example_dify"
proof -
  have "resolve_configs example_runtime example_store (JObj [(''id'', JVal (PInt 1))])
      (JVal (PStr ''2'')) = Inl TypeError"
    by (simp add: resolve_configs_def get_ai_config_def and_then_def try_lookup_def)
  moreover have "get_dify_config example_runtime example_store (JVal (PStr ''2'')) =
      Inr example_dify"
    by code_simp
  ultimately show ?thesis
    by (simp add: send_message_def Let_def example_request_fields example_get_session)
qed

subsection \<open>The two dispatch paths\<close>

lemma create_user_message:
  assumes "message \<noteq> JVal PNone"
  shows "create_message rt st session ''user'' message (s_conversation_id session) (JVal PNone) =
     Inr (user_message_row rt st session message, with_user_message rt st session message)"
  using assms
  by (simp add: create_message_def Let_def user_message_row_def with_user_message_def)

lemma model_path_unfold:
  assumes "message \<noteq> JVal PNone"
  shows "model_path rt post st session message ai_config =
     (case post (model_request ai_config (model_context rt st session message)) of
        Raises e \<Rightarrow>
          (Inr (error_response 500 (ModelRequestFailed e) None),
           log_post (with_user_message rt st session message)
             (model_request ai_config (model_context rt st session message)))
      | Responds r \<Rightarrow>
          if p_status_code r = 200
          then (case and_then (response_json r) (\<lambda>api_data.
                     and_then (answer_content api_data) (\<lambda>answer.
                     and_then (json_get api_data ''id'' (JVal PNone)) (\<lambda>mid.
                       create_message rt
                         (log_post (with_user_message rt st session message)
                            (model_request ai_config (model_context rt st session message)))
                         session ''assistant'' answer (s_conversation_id session) mid))) of
                  Inl e \<Rightarrow>
                    (Inr (error_response 500 (ModelRequestFailed e) None),
                     log_post (with_user_message rt st session message)
                       (model_request ai_config (model_context rt st session message)))
                | Inr (assistant_message, st3) \<Rightarrow>
                    (Inr \<lparr> status = 200,
                           data = ChatData (user_message_row rt st session message)
                             assistant_message (s_conversation_id session) (c_name ai_config) \<rparr>,
                     st3))
          else (Inr (error_response 500 (ModelApiError (p_status_code r)) (Some (p_text r))),
                log_post (with_user_message rt st session message)
                  (model_request ai_config (model_context rt st session message))))"
  unfolding model_path_def create_user_message [OF assms] model_context_def Let_def
  by (simp only: sum.case prod.case)

lemma history_before_request:
  assumes "\<forall>m \<in> set (chat_messages st). m_id m \<noteq> next_message_id st"
  shows "history_messages rt (with_user_message rt st session message) session
           (m_id (user_message_row rt st session message)) =
         rev (take 10 (order_by_created_at_desc rt (prior_messages st session)))"
proof -
  have "filter (\<lambda>m. m_id m \<noteq> next_message_id st)
          (filter (\<lambda>m. m_session m = s_id session)
             (chat_messages st @ [user_message_row rt st session message])) =
        filter (\<lambda>m. m_session m = s_id session) (chat_messages st)"
    using assms by (auto simp: user_message_row_def intro!: filter_cong)
  then show ?thesis
    by (simp add: history_messages_def with_user_message_def prior_messages_def
        user_message_row_def)
qed

lemma created_message_trace:
  assumes "create_message rt st0 session role content cid mid = Inr (msg, st')"
  shows "trace st' = trace st0 @ [CreateMessage msg]"
    and "chat_messages st' = chat_messages st0 @ [msg]"
    and "sessions st' = sessions st0"
    and "m_session msg = s_id session" and "m_role msg = role"
    and "m_content msg = JVal (PStr (py_str rt content))"
    and "m_conversation_id msg = cid"
  using assms by (auto simp: create_message_def Let_def split: if_splits)

lemma model_path_shapes:
  assumes "message \<noteq> JVal PNone"
  shows "(\<exists>err detail.
      model_path rt post st session message ai_config =
        (Inr (error_response 500 err detail),
         log_post (with_user_message rt st session message)
           (model_request ai_config (model_context rt st session message))))
   \<or> (\<exists>answer mid assistant_message st3.
      create_message rt
        (log_post (with_user_message rt st session message)
           (model_request ai_config (model_context rt st session message)))
        session ''assistant'' answer (s_conversation_id session) mid =
        Inr (assistant_message, st3)
      \<and> \<not> call_fails (post (model_request ai_config (model_context rt st session message)))
      \<and> model_path rt post st session message ai_config =
        (Inr \<lparr> status = 200,
               data = ChatData (user_message_row rt st session message) assistant_message
                 (s_conversation_id session) (c_name ai_config) \<rparr>,
         st3))"
proof (cases "post (model_request ai_config (model_context rt st session message))")
  case (Raises e)
  then show ?thesis by (simp add: model_path_unfold [OF assms]) blast
next
  case (Responds r)
  show ?thesis
  proof (cases "p_status_code r = 200")
    case False
    with Responds show ?thesis by (simp add: model_path_unfold [OF assms]) blast
  next
    case True
    let ?st2 = "log_post (with_user_message rt st session message)
                  (model_request ai_config (model_context rt st session message))"
    show ?thesis
    proof (cases "response_json r")
      case (Inl e)
      with Responds True show ?thesis
        by (simp add: model_path_unfold [OF assms] and_then_def) blast
    next
      case body: (Inr api_data)
      show ?thesis
      proof (cases "answer_content api_data")
        case (Inl e)
        with Responds True body show ?thesis
          by (simp add: model_path_unfold [OF assms] and_then_def) blast
      next
        case answer: (Inr answer)
        show ?thesis
        proof (cases "json_get api_data ''id'' (JVal PNone)")
          case (Inl e)
          with Responds True body answer show ?thesis
            by (simp add: model_path_unfold [OF assms] and_then_def) blast
        next
          case mid: (Inr mid)
          show ?thesis
          proof (cases "create_message rt ?st2 session ''assistant'' answer
              (s_conversation_id session) mid")
            case (Inl e)
            with Responds True body answer mid show ?thesis
              by (simp add: model_path_unfold [OF assms] and_then_def) blast
          next
            case (Inr created)
            obtain am st3 where c: "created = (am, st3)" by (cases created)
            from Responds True body answer mid Inr c
            have "model_path rt post st session message ai_config =
                (Inr \<lparr> status = 200,
                   data = ChatData (user_message_row rt st session message) am
                     (s_conversation_id session) (c_name ai_config) \<rparr>, st3)"
              by (simp add: model_path_unfold [OF assms] and_then_def)
            moreover from Responds True
            have "\<not> call_fails (post (model_request ai_config (model_context rt st session message)))"
              by simp
            ultimately show ?thesis using Inr c by blast
          qed
        qed
      qed
    qed
  qed
qed

lemma model_path_effects:
  assumes "message \<noteq> JVal PNone"
  shows "\<exists>rest more.
     trace (snd (model_path rt post st session message ai_config)) =
       trace st @ CreateMessage (user_message_row rt st session message)
         # Post (model_request ai_config (model_context rt st session message)) # rest
     \<and> chat_messages (snd (model_path rt post st session message ai_config)) =
         chat_messages st @ user_message_row rt st session message # more
     \<and> (call_fails (post (model_request ai_config (model_context rt st session message)))
          \<longrightarrow> rest = [] \<and> more = [])"
  using model_path_shapes [OF assms, of rt post st session ai_config]
proof (elim disjE exE conjE)
  fix err detail
  assume "model_path rt post st session message ai_config =
        (Inr (error_response 500 err detail),
         log_post (with_user_message rt st session message)
           (model_request ai_config (model_context rt st session message)))"
  then show ?thesis by (simp add: log_post_def with_user_message_def)
next
  fix answer mid assistant_message st3
  assume c: "create_message rt
        (log_post (with_user_message rt st session message)
           (model_request ai_config (model_context rt st session message)))
        session ''assistant'' answer (s_conversation_id session) mid =
        Inr (assistant_message, st3)"
    and ok: "\<not> call_fails (post (model_request ai_config (model_context rt st session message)))"
    and m: "model_path rt post st session message ai_config =
        (Inr \<lparr> status = 200,
               data = ChatData (user_message_row rt st session message) assistant_message
                 (s_conversation_id session) (c_name ai_config) \<rparr>,
         st3)"
  from created_message_trace(1,2) [OF c] ok show ?thesis
    by (simp add: m log_post_def with_user_message_def)
qed

lemma model_path_posts_context:
  assumes "message \<noteq> JVal PNone"
  shows "Post (model_request ai_config (model_context rt st session message))
     \<in> set (trace (snd (model_path rt post st session message ai_config)))"
  using model_path_effects [OF assms, of rt post st session ai_config] by auto

lemma newest_first_window:
  fixes ys :: "chat_message list"
  assumes "sorted (rev (map m_created_at ys))"
  shows "sorted (map m_created_at (rev (take n ys)))"
    and "\<forall>old \<in> set (drop n ys). \<forall>m \<in> set (take n ys). m_created_at old \<le> m_created_at m"
proof -
  have "map m_created_at (rev (take n ys)) =
      drop (length ys - n) (rev (map m_created_at ys))"
    by (simp add: rev_map take_map rev_take drop_map)
  with assms show "sorted (map m_created_at (rev (take n ys)))"
    by (simp add: sorted_wrt_drop)
  have "rev (map m_created_at ys) =
      rev (map m_created_at (drop n ys)) @ rev (map m_created_at (take n ys))"
    by (metis append_take_drop_id map_append rev_append)
  with assms have "sorted (rev (map m_created_at (drop n ys)) @ rev (map m_created_at (take n ys)))"
    by simp
  then show "\<forall>old \<in> set (drop n ys). \<forall>m \<in> set (take n ys). m_created_at old \<le> m_created_at m"
    by (auto simp: sorted_append)
qed

text \<open>
  C3. Whatever order the database gives to rows with the same time stamp, the
  context of the model path is the fixed system instruction, then the first ten
  rows of the session's earlier messages in the database's order by descending time
  stamp, reversed, then the user's current message: at most twelve entries. The
  user's message that was just persisted is not among the earlier messages. The ten
  rows are in ascending order of time stamp, and no row of the session that is left
  out is later than one that is sent.
\<close>

theorem context_window:
  assumes "\<forall>m \<in> set (chat_messages st). m_id m \<noteq> next_message_id st"
    and "json_truthy message"
    and "orders_by_created_at_desc rt (prior_messages st session)"
  shows "model_context rt st session message =
           role_content ''system'' (JVal (PStr system_prompt))
             # map (\<lambda>m. role_content (if m_role m = ''assistant'' then ''assistant'' else ''user'')
                          (m_content m))
                 (rev (take 10 (order_by_created_at_desc rt (prior_messages st session))))
             @ [role_content ''user'' message]
         \<and> length (model_context rt st session message) \<le> 12
         \<and> sorted (map m_created_at
             (rev (take 10 (order_by_created_at_desc rt (prior_messages st session)))))
         \<and> mset (take 10 (order_by_created_at_desc rt (prior_messages st session)))
             + mset (drop 10 (order_by_created_at_desc rt (prior_messages st session))) =
             mset (filter (\<lambda>m. m_session m = s_id session) (chat_messages st))
         \<and> (\<forall>old \<in> set (drop 10 (order_by_created_at_desc rt (prior_messages st session))).
              \<forall>m \<in> set (take 10 (order_by_created_at_desc rt (prior_messages st session))).
                m_created_at old \<le> m_created_at m)
         \<and> Post (model_request ai_config (model_context rt st session message))
             \<in> set (trace (snd (model_path rt post st session message ai_config)))"
proof -
  let ?ys = "order_by_created_at_desc rt (prior_messages st session)"
  have ctx: "model_context rt st session message =
           role_content ''system'' (JVal (PStr system_prompt))
             # map (\<lambda>m. role_content (if m_role m = ''assistant'' then ''assistant'' else ''user'')
                          (m_content m))
                 (rev (take 10 ?ys))
             @ [role_content ''user'' message]"
    by (simp add: model_context_def history_before_request [OF assms(1)] messages_payload_eq)
  have len: "length (model_context rt st session message) \<le> 12"
    unfolding ctx by simp
  from assms(3) have s: "sorted (rev (map m_created_at ?ys))"
    and m: "mset ?ys = mset (prior_messages st session)"
    by (simp_all add: orders_by_created_at_desc_def)
  have "mset (take 10 ?ys) + mset (drop 10 ?ys) = mset ?ys"
    by (metis append_take_drop_id mset_append)
  with m have part: "mset (take 10 ?ys) + mset (drop 10 ?ys) =
      mset (filter (\<lambda>m. m_session m = s_id session) (chat_messages st))"
    by (simp add: prior_messages_def)
  have n: "message \<noteq> JVal PNone" using assms(2) by (rule truthy_not_none)
  from ctx len newest_first_window [OF s, of 10] part
    model_path_posts_context [OF n, of ai_config rt st session post]
  show ?thesis by blast
qed

lemma example_runtime_orders: "orders_by_created_at_desc example_runtime ms"
  by (simp add: orders_by_created_at_desc_def example_runtime_def rev_map)

lemma example_fresh:
  "\<forall>m \<in> set (chat_messages example_store). m_id m \<noteq> next_message_id example_store"
  "\<forall>m \<in> set (chat_messages example_store_long). m_id m \<noteq> next_message_id example_store_long"
  by code_simp+

lemma example_recent:
  "rev (take 10 (order_by_created_at_desc example_runtime
      (prior_messages example_store example_session))) =
     [example_system_message, example_assistant_message]"
  "map m_content (rev (take 10 (order_by_created_at_desc example_runtime
      (prior_messages example_store_long example_session)))) =
     map (\<lambda>i. JVal (PInt i)) [3, 4, 5, 6, 7, 8, 9, 10, 11, 12]"
  by code_simp+

theorem context_window_witness:
  "model_context example_runtime example_store example_session (JVal (PStr ''hi'')) =
     [role_content ''system'' (JVal (PStr system_prompt)),
      role_content ''user'' (JVal (PStr ''be brief'')),
      role_content ''assistant'' (JVal (PStr ''hello'')),
      role_content ''user'' (JVal (PStr ''hi''))]
   \<and> length (model_context example_runtime example_store_long example_session
        (JVal (PStr ''hi''))) = 12
   \<and> map (\<lambda>e. subscript_key e ''content'')
        (butlast (tl (model_context example_runtime example_store_long example_session
           (JVal (PStr ''hi''))))) =
      map (\<lambda>i. Inr (JVal (PInt i))) [3, 4, 5, 6, 7, 8, 9, 10, 11, 12]"
proof -
  let ?long = "rev (take 10 (order_by_created_at_desc example_runtime
      (prior_messages example_store_long example_session)))"
  have t: "json_truthy (JVal (PStr ''hi''))" by simp
  have a: "model_context example_runtime example_store example_session (JVal (PStr ''hi'')) =
     [role_content ''system'' (JVal (PStr system_prompt)),
      role_content ''user'' (JVal (PStr ''be brief'')),
      role_content ''assistant'' (JVal (PStr ''hello'')),
      role_content ''user'' (JVal (PStr ''hi''))]"
    using context_window [OF example_fresh(1) t example_runtime_orders, of example_session]
    by (simp add: example_recent example_system_message_def example_assistant_message_def)
  have b: "model_context example_runtime example_store_long example_session (JVal (PStr ''hi'')) =
           role_content ''system'' (JVal (PStr system_prompt))
             # map (\<lambda>m. role_content (if m_role m = ''assistant'' then ''assistant'' else ''user'')
                          (m_content m)) ?long
             @ [role_content ''user'' (JVal (PStr ''hi''))]"
    using context_window [OF example_fresh(2) t example_runtime_orders, of example_session]
    by blast
  have c: "length ?long = 10"
    using arg_cong [OF example_recent(2), of length] by simp
  have d: "map (\<lambda>e. subscript_key e ''content'')
        (butlast (tl (model_context example_runtime example_store_long example_session
           (JVal (PStr ''hi''))))) =
      map (\<lambda>m. Inr (m_content m)) ?long"
    unfolding b by (simp add: role_content_def butlast_append)
  have e: "map (\<lambda>m. Inr (m_content m)) ?long = map Inr (map m_content ?long)"
    by simp
  show ?thesis using a c d unfolding e example_recent(2) by (simp add: b)
qed

subsection \<open>Effects of the two dispatch paths\<close>

lemma dify_path_unfold:
  assumes "message \<noteq> JVal PNone"
  shows "dify_path rt post st session user_id message dify_config =
     (case post (dify_request dify_config session user_id message) of
        Raises e \<Rightarrow>
          (dify_except e,
           log_post (with_user_message rt st session message)
             (dify_request dify_config session user_id message))
      | Responds r \<Rightarrow>
          if p_status_code r = 200
          then (case response_json r of
                  Inl e \<Rightarrow>
                    (dify_except e,
                     log_post (with_user_message rt st session message)
                       (dify_request dify_config session user_id message))
                | Inr reply \<Rightarrow>
                    (case bind_conversation
                            (log_post (with_user_message rt st session message)
                               (dify_request dify_config session user_id message))
                            session reply of
                       Inl e \<Rightarrow>
                         (dify_except e,
                          log_post (with_user_message rt st session message)
                            (dify_request dify_config session user_id message))
                     | Inr (session', st3) \<Rightarrow>
                         (case and_then (json_get reply ''answer'' (JVal (PStr []))) (\<lambda>answer.
                               and_then (json_get reply ''conversation_id'' (JVal PNone)) (\<lambda>cid.
                               and_then (json_get reply ''message_id'' (JVal PNone)) (\<lambda>mid.
                               and_then (create_message rt st3 session' ''assistant'' answer
                                           cid mid) (\<lambda>created.
                                 Inr (cid, created))))) of
                            Inl e \<Rightarrow> (dify_except e, st3)
                          | Inr (cid, assistant_message, st4) \<Rightarrow>
                              (Inr \<lparr> status = 200,
                                     data = ChatData (user_message_row rt st session message)
                                              assistant_message cid ''Dify Knowledge Base'' \<rparr>,
                               st4))))
          else (Inr (error_response 500 (DifyApiError (p_status_code r)) (Some (p_text r))),
                log_post (with_user_message rt st session message)
                  (dify_request dify_config session user_id message)))"
  unfolding dify_path_def create_user_message [OF assms] Let_def
  by (simp only: sum.case prod.case)

lemma bind_conversation_cases:
  "bind_conversation st session reply = Inr (session', st') \<Longrightarrow>
     (session' = session \<and> st' = st)
     \<or> (\<not> json_truthy (s_conversation_id session)
        \<and> (\<exists>cid. session' = session\<lparr> s_conversation_id := cid \<rparr>
                  \<and> st' = save_session st session'))"
  by (auto simp: bind_conversation_def and_then_def Let_def split: sum.splits if_splits)

text \<open>
  The store the knowledge-base path leaves: the one after the outbound call, the one
  after the binding of the conversation id, or the one after the assistant's
  message.
\<close>

lemma dify_path_shapes:
  assumes "message \<noteq> JVal PNone"
  shows "snd (dify_path rt post st session user_id message dify_config) =
           log_post (with_user_message rt st session message)
             (dify_request dify_config session user_id message)
   \<or> (\<not> call_fails (post (dify_request dify_config session user_id message))
      \<and> (\<exists>reply session' st3.
            bind_conversation
              (log_post (with_user_message rt st session message)
                 (dify_request dify_config session user_id message))
              session reply = Inr (session', st3)
            \<and> (snd (dify_path rt post st session user_id message dify_config) = st3
               \<or> (\<exists>answer cid mid assistant_message st4.
                     create_message rt st3 session' ''assistant'' answer cid mid =
                       Inr (assistant_message, st4)
                     \<and> snd (dify_path rt post st session user_id message dify_config) = st4))))"
proof (cases "post (dify_request dify_config session user_id message)")
  case (Raises e)
  then show ?thesis by (simp add: dify_path_unfold [OF assms])
next
  case (Responds r)
  show ?thesis
  proof (cases "p_status_code r = 200")
    case False
    with Responds show ?thesis by (simp add: dify_path_unfold [OF assms])
  next
    case True
    let ?st2 = "log_post (with_user_message rt st session message)
                  (dify_request dify_config session user_id message)"
    from Responds True
    have ok: "\<not> call_fails (post (dify_request dify_config session user_id message))"
      by simp
    show ?thesis
    proof (cases "response_json r")
      case (Inl e)
      with Responds True show ?thesis by (simp add: dify_path_unfold [OF assms])
    next
      case body: (Inr reply)
      show ?thesis
      proof (cases "bind_conversation ?st2 session reply")
        case (Inl e)
        with Responds True body show ?thesis by (simp add: dify_path_unfold [OF assms])
      next
        case (Inr bound)
        obtain session' st3 where b: "bound = (session', st3)" by (cases bound)
        note bc = Inr [unfolded b]
        show ?thesis
        proof (cases "json_get reply ''answer'' (JVal (PStr []))")
          case (Inl e)
          with Responds True body bc
          have "snd (dify_path rt post st session user_id message dify_config) = st3"
            by (simp add: dify_path_unfold [OF assms] and_then_def)
          with ok bc show ?thesis by blast
        next
          case answer: (Inr answer)
          show ?thesis
          proof (cases "json_get reply ''conversation_id'' (JVal PNone)")
            case (Inl e)
            with Responds True body bc answer
            have "snd (dify_path rt post st session user_id message dify_config) = st3"
              by (simp add: dify_path_unfold [OF assms] and_then_def)
            with ok bc show ?thesis by blast
          next
            case cid: (Inr cid)
            show ?thesis
            proof (cases "json_get reply ''message_id'' (JVal PNone)")
              case (Inl e)
              with Responds True body bc answer cid
              have "snd (dify_path rt post st session user_id message dify_config) = st3"
                by (simp add: dify_path_unfold [OF assms] and_then_def)
              with ok bc show ?thesis by blast
            next
              case mid: (Inr mid)
              show ?thesis
              proof (cases "create_message rt st3 session' ''assistant'' answer cid mid")
                case (Inl e)
                with Responds True body bc answer cid mid
                have "snd (dify_path rt post st session user_id message dify_config) = st3"
                  by (simp add: dify_path_unfold [OF assms] and_then_def)
                with ok bc show ?thesis by blast
              next
                case (Inr created)
                obtain am st4 where c: "created = (am, st4)" by (cases created)
                from Responds True body bc answer cid mid Inr c
                have "snd (dify_path rt post st session user_id message dify_config) = st4"
                  by (simp add: dify_path_unfold [OF assms] and_then_def)
                with ok bc Inr [unfolded c] show ?thesis by blast
              qed
            qed
          qed
        qed
      qed
    qed
  qed
qed

lemma dify_path_effects:
  assumes "message \<noteq> JVal PNone"
  shows "\<exists>rest more.
     trace (snd (dify_path rt post st session user_id message dify_config)) =
       trace st @ CreateMessage (user_message_row rt st session message)
         # Post (dify_request dify_config session user_id message) # rest
     \<and> chat_messages (snd (dify_path rt post st session user_id message dify_config)) =
         chat_messages st @ user_message_row rt st session message # more
     \<and> (call_fails (post (dify_request dify_config session user_id message))
          \<longrightarrow> rest = [] \<and> more = [])"
proof -
  let ?q = "dify_request dify_config session user_id message"
  let ?um = "user_message_row rt st session message"
  let ?st2 = "log_post (with_user_message rt st session message) ?q"
  let ?out = "snd (dify_path rt post st session user_id message dify_config)"
  have st2: "trace ?st2 = trace st @ [CreateMessage ?um, Post ?q]"
    "chat_messages ?st2 = chat_messages st @ [?um]"
    by (simp_all add: log_post_def with_user_message_def)
  have bc: "(\<exists>saved. trace st3 = trace ?st2 @ saved) \<and> chat_messages st3 = chat_messages ?st2"
    if "bind_conversation ?st2 session reply = Inr (session', st3)" for reply session' st3
    using bind_conversation_cases [OF that] by (auto simp: save_session_def)
  from dify_path_shapes [OF assms, of rt post st session user_id dify_config]
  consider (called) "?out = ?st2"
    | (bound) reply session' st3 where
        "\<not> call_fails (post ?q)" "bind_conversation ?st2 session reply = Inr (session', st3)"
        "?out = st3"
    | (answered) reply session' st3 answer cid mid assistant_message st4 where
        "\<not> call_fails (post ?q)" "bind_conversation ?st2 session reply = Inr (session', st3)"
        "create_message rt st3 session' ''assistant'' answer cid mid = Inr (assistant_message, st4)"
        "?out = st4"
    by blast
  then show ?thesis
  proof cases
    case called
    then show ?thesis by (simp add: st2)
  next
    case bound
    from bc [OF bound(2)] bound(1) show ?thesis
      unfolding bound(3) by (auto simp: st2)
  next
    case answered
    from bc [OF answered(2)] created_message_trace(1,2) [OF answered(3)] answered(1)
    show ?thesis unfolding answered(4) by (auto simp: st2)
  qed
qed

text \<open>
  C5. When the view reaches a provider, it first persists the user's message, with
  the text of the message as content, and then posts the outbound request; when the
  outbound call fails (an exception or a status other than 200) nothing else
  happens: the user's message stays in the message log and no assistant message is
  created.
\<close>

theorem user_message_persisted_before_call:
  assumes "json_truthy (data_get (r_data request) ''session_id'')"
    and "json_truthy (data_get (r_data request) ''message'')"
    and "get_session rt st (data_get (r_data request) ''session_id'') (r_user request) = Inr session"
    and "selected_provider rt st (data_get (r_data request) ''model_id'')
           (data_get (r_data request) ''dify_config_id'') = Inr provider"
    and "provider \<noteq> NoProvider"
  shows "\<exists>q rest more.
     trace (snd (send_message rt post request st)) =
       trace st
         @ CreateMessage (user_message_row rt st session (data_get (r_data request) ''message''))
         # Post q # rest
     \<and> chat_messages (snd (send_message rt post request st)) =
         chat_messages st
           @ user_message_row rt st session (data_get (r_data request) ''message'') # more
     \<and> (call_fails (post q) \<longrightarrow> rest = [] \<and> more = [])
     \<and> m_session (user_message_row rt st session (data_get (r_data request) ''message'')) =
         s_id session
     \<and> m_role (user_message_row rt st session (data_get (r_data request) ''message'')) = ''user''
     \<and> m_content (user_message_row rt st session (data_get (r_data request) ''message'')) =
         JVal (PStr (py_str rt (data_get (r_data request) ''message'')))"
proof -
  note n = truthy_not_none [OF assms(2)]
  have row: "m_session (user_message_row rt st session (data_get (r_data request) ''message'')) =
         s_id session
     \<and> m_role (user_message_row rt st session (data_get (r_data request) ''message'')) = ''user''
     \<and> m_content (user_message_row rt st session (data_get (r_data request) ''message'')) =
         JVal (PStr (py_str rt (data_get (r_data request) ''message'')))"
    by (simp add: user_message_row_def)
  show ?thesis
  proof (cases provider)
    case (UseModel ai_config)
    with assms(4) have eq: "send_message rt post request st =
        model_path rt post st session (data_get (r_data request) ''message'') ai_config"
      by (simp add: send_message_dispatch [OF assms(1-3)])
    from model_path_effects [OF n, of rt post st session ai_config] row
    show ?thesis unfolding eq by blast
  next
    case (UseDify dify_config)
    with assms(4) have eq: "send_message rt post request st =
        dify_path rt post st session (r_user request) (data_get (r_data request) ''message'')
          dify_config"
      by (simp add: send_message_dispatch [OF assms(1-3)])
    from dify_path_effects [OF n, of rt post st session "r_user request" dify_config] row
    show ?thesis unfolding eq by blast
  next
    case NoProvider
    with assms(5) show ?thesis by simp
  qed
qed

lemma model_path_frame:
  assumes "message \<noteq> JVal PNone"
  shows "sessions (snd (model_path rt post st session message ai_config)) = sessions st"
    and "\<exists>new. trace (snd (model_path rt post st session message ai_config)) = trace st @ new
          \<and> (\<forall>s. SaveSession s \<notin> set new)"
    and "\<exists>ms. chat_messages (snd (model_path rt post st session message ai_config)) =
            chat_messages st @ ms
          \<and> (\<forall>m \<in> set ms. m_session m = s_id session
                \<and> m_conversation_id m = s_conversation_id session)"
    and "fst (model_path rt post st session message ai_config) =
           Inr \<lparr> status = code, data = ChatData um am cid used \<rparr>
         \<Longrightarrow> m_conversation_id um = s_conversation_id session
             \<and> m_conversation_id am = s_conversation_id session
             \<and> cid = s_conversation_id session"
proof -
  let ?q = "model_request ai_config (model_context rt st session message)"
  let ?st2 = "log_post (with_user_message rt st session message) ?q"
  have st2: "sessions ?st2 = sessions st"
    "trace ?st2 = trace st @ [CreateMessage (user_message_row rt st session message), Post ?q]"
    "chat_messages ?st2 = chat_messages st @ [user_message_row rt st session message]"
    by (simp_all add: log_post_def with_user_message_def)
  have um: "m_session (user_message_row rt st session message) = s_id session"
    "m_conversation_id (user_message_row rt st session message) = s_conversation_id session"
    by (simp_all add: user_message_row_def)
  from model_path_shapes [OF assms, of rt post st session ai_config]
  consider (error) err detail where
      "model_path rt post st session message ai_config =
         (Inr (error_response 500 err detail), ?st2)"
    | (success) answer mid assistant_message st3 where
      "create_message rt ?st2 session ''assistant'' answer (s_conversation_id session) mid =
         Inr (assistant_message, st3)"
      "model_path rt post st session message ai_config =
        (Inr \<lparr> status = 200,
               data = ChatData (user_message_row rt st session message) assistant_message
                 (s_conversation_id session) (c_name ai_config) \<rparr>,
         st3)"
    by blast
  note shapes = this
  show "sessions (snd (model_path rt post st session message ai_config)) = sessions st"
  proof (cases rule: shapes)
    case error
    then show ?thesis by (simp add: st2)
  next
    case success
    from created_message_trace(3) [OF success(1)] show ?thesis by (simp add: success(2) st2)
  qed
  show "\<exists>new. trace (snd (model_path rt post st session message ai_config)) = trace st @ new
          \<and> (\<forall>s. SaveSession s \<notin> set new)"
  proof (cases rule: shapes)
    case error
    then show ?thesis by (simp add: st2)
  next
    case success
    from created_message_trace(1) [OF success(1)] show ?thesis by (simp add: success(2) st2)
  qed
  show "\<exists>ms. chat_messages (snd (model_path rt post st session message ai_config)) =
            chat_messages st @ ms
          \<and> (\<forall>m \<in> set ms. m_session m = s_id session
                \<and> m_conversation_id m = s_conversation_id session)"
  proof (cases rule: shapes)
    case error
    then show ?thesis by (simp add: st2 um)
  next
    case success
    from created_message_trace(2,4,7) [OF success(1)] show ?thesis
      by (simp add: success(2) st2 um)
  qed
  show "m_conversation_id um = s_conversation_id session
       \<and> m_conversation_id am = s_conversation_id session
       \<and> cid = s_conversation_id session"
    if "fst (model_path rt post st session message ai_config) =
           Inr \<lparr> status = code, data = ChatData um am cid used \<rparr>"
  proof (cases rule: shapes)
    case error
    with that show ?thesis by (simp add: error_response_def)
  next
    case success
    from created_message_trace(7) [OF success(1)] that show ?thesis
      by (auto simp: success(2) um)
  qed
qed

text \<open>
  C10. A dispatch that takes the model path leaves every session row as it was and
  saves no session; the rows it adds to the message log and the conversation id it
  returns carry the conversation id the session had before.
\<close>

theorem model_path_keeps_conversation_id:
  assumes "json_truthy (data_get (r_data request) ''session_id'')"
    and "json_truthy (data_get (r_data request) ''message'')"
    and "get_session rt st (data_get (r_data request) ''session_id'') (r_user request) = Inr session"
    and "selected_provider rt st (data_get (r_data request) ''model_id'')
           (data_get (r_data request) ''dify_config_id'') = Inr (UseModel ai_config)"
  shows "sessions (snd (send_message rt post request st)) = sessions st
     \<and> (\<exists>new. trace (snd (send_message rt post request st)) = trace st @ new
            \<and> (\<forall>s. SaveSession s \<notin> set new))
     \<and> (\<exists>ms. chat_messages (snd (send_message rt post request st)) = chat_messages st @ ms
            \<and> (\<forall>m \<in> set ms. m_session m = s_id session
                  \<and> m_conversation_id m = s_conversation_id session))
     \<and> (\<forall>code um am cid used.
           fst (send_message rt post request st) =
             Inr \<lparr> status = code, data = ChatData um am cid used \<rparr>
           \<longrightarrow> m_conversation_id um = s_conversation_id session
               \<and> m_conversation_id am = s_conversation_id session
               \<and> cid = s_conversation_id session)"
proof -
  note n = truthy_not_none [OF assms(2)]
  have eq: "send_message rt post request st =
      model_path rt post st session (data_get (r_data request) ''message'') ai_config"
    using send_message_dispatch [OF assms(1-3), of post] assms(4) by simp
  show ?thesis
    unfolding eq
    using model_path_frame(1-3) [OF n, of rt post st session ai_config]
      model_path_frame(4) [OF n, of rt post st session ai_config]
    by blast
qed

lemma example_store_fields:
  "trace example_store = []"
  "sessions example_store = [example_session]"
  "chat_messages example_store = [example_system_message, example_assistant_message]"
  by (simp_all add: example_store_def)

lemma example_resolution_model:
  "resolution_order example_runtime example_store (JVal (PInt 1)) (JVal PNone) =
     UseModel example_model"
  by code_simp

lemma example_selected:
  "selected_provider example_runtime example_store (JVal (PInt 1)) (JVal PNone) =
     Inr (UseModel example_model)"
  "selected_provider example_runtime example_store (JVal (PStr ''abc'')) (JVal (PStr ''2'')) =
     Inr (UseDify example_dify)"
  "selected_provider example_runtime example_store_unconfigured (JVal (PInt 1)) (JVal (PInt 2)) =
     Inr NoProvider"
  by (simp_all add: selected_provider_order example_resolution example_resolution_model)

theorem user_message_persisted_before_call_witness:
  "(\<exists>q. trace (snd (send_message example_runtime (example_reply 503 (JObj []))
                       (example_request (PInt 1) PNone) example_store)) =
          [CreateMessage (user_message_row example_runtime example_store example_session
             (JVal (PStr ''hi''))), Post q])
   \<and> chat_messages (snd (send_message example_runtime (example_reply 503 (JObj []))
                          (example_request (PInt 1) PNone) example_store)) =
       [example_system_message, example_assistant_message,
        user_message_row example_runtime example_store example_session (JVal (PStr ''hi''))]
   \<and> chat_messages (snd (send_message example_runtime (\<lambda>q. Raises (Timeout ''timed out''))
                          (example_request (PStr ''abc'') (PStr ''2'')) example_store)) =
       [example_system_message, example_assistant_message,
        user_message_row example_runtime example_store example_session (JVal (PStr ''hi''))]
   \<and> m_content (user_message_row example_runtime example_store example_session
        (JVal (PStr ''hi''))) = JVal (PStr ''hi'')"
proof -
  have a: "\<exists>q rest more.
     trace (snd (send_message example_runtime (example_reply 503 (JObj []))
        (example_request (PInt 1) PNone) example_store)) =
       CreateMessage (user_message_row example_runtime example_store example_session
          (JVal (PStr ''hi''))) # Post q # rest
     \<and> chat_messages (snd (send_message example_runtime (example_reply 503 (JObj []))
          (example_request (PInt 1) PNone) example_store)) =
         [example_system_message, example_assistant_message,
          user_message_row example_runtime example_store example_session (JVal (PStr ''hi''))]
           @ more
     \<and> rest = [] \<and> more = []"
    using user_message_persisted_before_call [of "example_request (PInt 1) PNone" example_runtime
        example_store example_session "UseModel example_model" "example_reply 503 (JObj [])"]
    by (simp add: example_request_fields example_get_session example_selected
        example_store_fields example_reply_def)
  have b: "\<exists>q rest more.
     trace (snd (send_message example_runtime (\<lambda>q. Raises (Timeout ''timed out''))
       (example_request (PStr ''abc'') (PStr ''2'')) example_store)) =
       CreateMessage (user_message_row example_runtime example_store example_session
          (JVal (PStr ''hi''))) # Post q # rest
     \<and> chat_messages (snd (send_message example_runtime (\<lambda>q. Raises (Timeout ''timed out''))
           (example_request (PStr ''abc'') (PStr ''2'')) example_store)) =
         [example_system_message, example_assistant_message,
          user_message_row example_runtime example_store example_session (JVal (PStr ''hi''))]
           @ more
     \<and> rest = [] \<and> more = []"
    using user_message_persisted_before_call [of "example_request (PStr ''abc'') (PStr ''2'')"
        example_runtime example_store example_session "UseDify example_dify"
        "\<lambda>q. Raises (Timeout ''timed out'')"]
    by (simp add: example_request_fields example_get_session example_selected
        example_store_fields)
  have c: "m_content (user_message_row example_runtime example_store example_session
        (JVal (PStr ''hi''))) = JVal (PStr ''hi'')"
    by (simp add: user_message_row_def)
  from a b c show ?thesis by auto
qed

theorem model_path_keeps_conversation_id_witness:
  "sessions (snd (send_message example_runtime (example_reply 200 (JObj []))
                    (example_request (PInt 1) PNone) example_store)) = [example_session]
   \<and> (\<exists>ms. chat_messages (snd (send_message example_runtime (example_reply 200 (JObj []))
                                  (example_request (PInt 1) PNone) example_store)) =
            [example_system_message, example_assistant_message] @ ms
          \<and> (\<forall>m \<in> set ms. m_conversation_id m = JVal PNone))"
  using model_path_keeps_conversation_id [of "example_request (PInt 1) PNone" example_runtime
      example_store example_session example_model "example_reply 200 (JObj [])"]
  by (simp add: example_request_fields example_get_session example_selected
      example_store_fields) (auto simp: example_session_def)







subsection \<open>The session's conversation id\<close>

lemma objects_get_member: "objects_get P rows = Inr x \<Longrightarrow> x \<in> set rows \<and> P x"
proof -
  assume a: "objects_get P rows = Inr x"
  then have "filter P rows = [x]"
    by (auto simp: objects_get_def split: list.splits)
  then have "x \<in> set (filter P rows)" by simp
  then show ?thesis by simp
qed

lemma get_session_member:
  "get_session rt st session_id u = Inr session \<Longrightarrow> session \<in> set (sessions st)"
  by (auto simp: get_session_def dest: objects_get_member)

lemma dify_path_sessions:
  assumes "message \<noteq> JVal PNone"
  shows "sessions (snd (dify_path rt post st session user_id message dify_config)) = sessions st
   \<or> (\<not> json_truthy (s_conversation_id session)
      \<and> (\<exists>cid. sessions (snd (dify_path rt post st session user_id message dify_config)) =
            map (\<lambda>r. if s_id r = s_id session then session\<lparr> s_conversation_id := cid \<rparr> else r)
              (sessions st)))"
proof -
  let ?q = "dify_request dify_config session user_id message"
  let ?st2 = "log_post (with_user_message rt st session message) ?q"
  let ?out = "snd (dify_path rt post st session user_id message dify_config)"
  have st2: "sessions ?st2 = sessions st"
    by (simp add: log_post_def with_user_message_def)
  have bc: "sessions st3 = sessions st
     \<or> (\<not> json_truthy (s_conversation_id session)
        \<and> (\<exists>cid. sessions st3 =
              map (\<lambda>r. if s_id r = s_id session then session\<lparr> s_conversation_id := cid \<rparr> else r)
                (sessions st)))"
    if "bind_conversation ?st2 session reply = Inr (session', st3)" for reply session' st3
    using bind_conversation_cases [OF that] st2 by (auto simp: save_session_def)
  from dify_path_shapes [OF assms, of rt post st session user_id dify_config]
  consider (called) "?out = ?st2"
    | (bound) reply session' st3 where
        "bind_conversation ?st2 session reply = Inr (session', st3)" "?out = st3"
    | (answered) reply session' st3 answer cid mid assistant_message st4 where
        "bind_conversation ?st2 session reply = Inr (session', st3)"
        "create_message rt st3 session' ''assistant'' answer cid mid = Inr (assistant_message, st4)"
        "?out = st4"
    by blast
  then show ?thesis
  proof cases
    case called
    then show ?thesis by (simp add: st2)
  next
    case bound
    from bc [OF bound(1)] show ?thesis unfolding bound(2) .
  next
    case answered
    from bc [OF answered(1)] created_message_trace(3) [OF answered(2)]
    show ?thesis unfolding answered(3) by simp
  qed
qed

lemma send_message_sessions:
  "sessions (snd (send_message rt post request st)) = sessions st
   \<or> (\<exists>session cid. session \<in> set (sessions st)
        \<and> \<not> json_truthy (s_conversation_id session)
        \<and> sessions (snd (send_message rt post request st)) =
            map (\<lambda>r. if s_id r = s_id session then session\<lparr> s_conversation_id := cid \<rparr> else r)
              (sessions st))"
proof (cases "json_truthy (data_get (r_data request) ''session_id'')
    \<and> json_truthy (data_get (r_data request) ''message'')")
  case False
  then show ?thesis by (auto simp: send_message_def Let_def)
next
  case True
  then have n: "data_get (r_data request) ''message'' \<noteq> JVal PNone"
    by (simp add: truthy_not_none)
  show ?thesis
  proof (cases "get_session rt st (data_get (r_data request) ''session_id'') (r_user request)")
    case (Inl e)
    with True show ?thesis by (cases e) (simp_all add: send_message_def Let_def)
  next
    case (Inr session)
    note d = send_message_dispatch [OF conjunct1 [OF True] conjunct2 [OF True] Inr, of post]
    show ?thesis
    proof (cases "selected_provider rt st (data_get (r_data request) ''model_id'')
             (data_get (r_data request) ''dify_config_id'')")
      case (Inl e)
      then show ?thesis by (simp add: d)
    next
      case sel: (Inr provider)
      show ?thesis
      proof (cases provider)
        case (UseModel c)
        with sel show ?thesis by (simp add: d model_path_frame(1) [OF n])
      next
        case (UseDify dc)
        with sel dify_path_sessions [OF n, of rt post st session "r_user request" dc]
          get_session_member [OF Inr]
        show ?thesis unfolding d by auto
      next
        case NoProvider
        with sel show ?thesis by (simp add: d)
      qed
    qed
  qed
qed

text \<open>
  C4, as the view has it. The view tests the session's conversation id for truth,
  not for \<^verbatim>\<open>None\<close>: a session row whose conversation id is set to a non-empty
  value is left as it is by every dispatch, whatever the provider answers; a row
  that a dispatch changes had a conversation id that was \<^verbatim>\<open>None\<close> or empty.
\<close>

theorem conversation_id_kept_once_set:
  assumes "distinct (map s_id (sessions st))"
  shows "length (sessions (snd (send_message rt post request st))) = length (sessions st)
     \<and> (\<forall>i < length (sessions st).
           json_truthy (s_conversation_id (sessions st ! i))
           \<longrightarrow> sessions (snd (send_message rt post request st)) ! i = sessions st ! i)"
proof -
  consider (same) "sessions (snd (send_message rt post request st)) = sessions st"
    | (bound) session cid where "session \<in> set (sessions st)"
        "\<not> json_truthy (s_conversation_id session)"
        "sessions (snd (send_message rt post request st)) =
            map (\<lambda>r. if s_id r = s_id session then session\<lparr> s_conversation_id := cid \<rparr> else r)
              (sessions st)"
    using send_message_sessions [of rt post request st] by blast
  then show ?thesis
  proof cases
    case same
    then show ?thesis by simp
  next
    case bound
    have "sessions st ! i = session"
      if "i < length (sessions st)" "s_id (sessions st ! i) = s_id session" for i
    proof -
      have "inj_on s_id (set (sessions st))" using assms by (simp add: distinct_map)
      moreover have "sessions st ! i \<in> set (sessions st)" using that(1) by simp
      ultimately show ?thesis using bound(1) that(2) by (auto dest: inj_onD)
    qed
    with bound(2) show ?thesis unfolding bound(3) by auto
  qed
qed

text \<open>
  The claim as stated fails: a first reply binds the empty string, which is not
  \<^verbatim>\<open>None\<close>, and the next reply overwrites it.
\<close>

theorem conversation_id_overwritten_counterexample:
  "map s_conversation_id
     (sessions (snd (send_message example_runtime (example_dify_reply '''')
        (example_request PNone (PInt 2)) example_store))) = [JVal (PStr '''')]
   \<and> JVal (PStr '''') \<noteq> JVal PNone
   \<and> map s_conversation_id
       (sessions (snd (send_message example_runtime (example_dify_reply ''xyz'')
          (example_request PNone (PInt 2))
          (snd (send_message example_runtime (example_dify_reply '''')
             (example_request PNone (PInt 2)) example_store))))) = [JVal (PStr ''xyz'')]"
  by code_simp

lemma example_bound:
  "sessions (snd (send_message example_runtime (example_dify_reply ''abc'')
      (example_request PNone (PInt 2)) example_store)) =
     [example_session\<lparr> s_conversation_id := JVal (PStr ''abc'') \<rparr>]"
  by code_simp

theorem conversation_id_kept_once_set_witness:
  "sessions (snd (send_message example_runtime (example_dify_reply ''xyz'')
      (example_request PNone (PInt 2))
      (snd (send_message example_runtime (example_dify_reply ''abc'')
         (example_request PNone (PInt 2)) example_store)))) =
     [example_session\<lparr> s_conversation_id := JVal (PStr ''abc'') \<rparr>]"
proof -
  let ?st1 = "snd (send_message example_runtime (example_dify_reply ''abc'')
      (example_request PNone (PInt 2)) example_store)"
  let ?st2 = "snd (send_message example_runtime (example_dify_reply ''xyz'')
      (example_request PNone (PInt 2)) ?st1)"
  have "distinct (map s_id (sessions ?st1))" by (simp add: example_bound)
  from conversation_id_kept_once_set [OF this, of example_runtime "example_dify_reply ''xyz''"
      "example_request PNone (PInt 2)"]
  have "length (sessions ?st2) = 1" and "sessions ?st2 ! 0 = sessions ?st1 ! 0"
    by (simp_all add: example_bound)
  then have "sessions ?st2 = [sessions ?st1 ! 0]"
    by (cases "sessions ?st2") simp_all
  then show ?thesis by (simp add: example_bound)
qed

subsection \<open>The reply of a model provider\<close>

lemma json_contains_object:
  "json_contains k (JObj kvs) = Inr (map_of kvs k \<noteq> None)"
  by (simp add: map_of_eq_None_iff)

lemma answer_content_absent_or_empty:
  assumes "map_of kvs ''choices'' \<in> {None, Some (JArr []), Some (JObj []), Some (JVal (PStr []))}"
  shows "answer_content (JObj kvs) = Inr (JVal (PStr []))"
  using assms
  by (auto simp: answer_content_def and_then_def json_contains_object
      simp del: json_contains.simps)

lemma answer_content_first_choice:
  assumes "map_of kvs ''choices'' = Some (JArr (JObj ckvs # rest))"
    and "map_of ckvs ''message'' = Some (JObj mkvs)"
    and "map_of mkvs ''content'' = Some v"
  shows "answer_content (JObj kvs) = Inr v"
  using assms
  by (simp add: answer_content_def and_then_def json_contains_object
      del: json_contains.simps)

lemma json_get_not_object:
  assumes "\<forall>kvs. j \<noteq> JObj kvs"
  shows "json_get j k dflt = Inl AttributeError"
  using assms by (cases j) simp_all

lemma model_path_reply:
  assumes "message \<noteq> JVal PNone"
    and "p_status_code r = 200" and "p_json r = Some (JObj kvs)"
    and "answer_content (JObj kvs) = Inr v" and "v \<noteq> JVal PNone"
  shows "replied_with (model_path rt (\<lambda>q. Responds r) st session message ai_config) st
           (JVal (PStr (py_str rt v)))"
  using assms(2-5)
  by (simp add: model_path_unfold [OF assms(1)] response_json_def and_then_def
      create_message_def Let_def log_post_def with_user_message_def)

lemma model_path_null_reply:
  assumes "message \<noteq> JVal PNone"
    and "p_status_code r = 200" and "p_json r = Some (JObj kvs)"
    and "answer_content (JObj kvs) = Inr (JVal PNone)"
  shows "model_path rt (\<lambda>q. Responds r) st session message ai_config =
           (Inr (error_response 500 (ModelRequestFailed IntegrityError) None),
            log_post (with_user_message rt st session message)
              (model_request ai_config (model_context rt st session message)))"
  using assms(2-4)
  by (simp add: model_path_unfold [OF assms(1)] response_json_def and_then_def
      create_message_def)

lemma model_path_malformed_reply:
  assumes "message \<noteq> JVal PNone"
    and "p_status_code r = 200" and "\<forall>kvs. p_json r \<noteq> Some (JObj kvs)"
  shows "\<exists>e. model_path rt (\<lambda>q. Responds r) st session message ai_config =
           (Inr (error_response 500 (ModelRequestFailed e) None),
            log_post (with_user_message rt st session message)
              (model_request ai_config (model_context rt st session message)))"
proof (cases "p_json r")
  case None
  with assms(2) show ?thesis
    by (simp add: model_path_unfold [OF assms(1)] response_json_def and_then_def) blast
next
  case (Some j)
  with assms(3) have "\<forall>kvs. j \<noteq> JObj kvs" by simp
  then have g: "json_get j ''id'' (JVal PNone) = Inl AttributeError"
    by (rule json_get_not_object)
  show ?thesis
  proof (cases "answer_content j")
    case (Inl e)
    with Some assms(2) show ?thesis
      by (simp add: model_path_unfold [OF assms(1)] response_json_def and_then_def) blast
  next
    case (Inr a)
    with Some assms(2) g show ?thesis
      by (simp add: model_path_unfold [OF assms(1)] response_json_def and_then_def) blast
  qed
qed

text \<open>
  C8, as the view has it. When the model provider answers 200 with a JSON object,
  the reply is the empty string if \<open>choices\<close> is absent or empty, and the content of
  the first choice's message if \<open>choices\<close> is a list whose first element has one that
  is a string; the request then succeeds and the assistant message with that content
  is persisted and returned. A content that is neither a string nor \<^verbatim>\<open>null\<close> is
  persisted and returned as the text \<^verbatim>\<open>str\<close> gives for it. When the content is
  \<^verbatim>\<open>null\<close>, the column of the content refuses it, and when the body of a 200
  answer is no JSON object, the view answers 500 and persists no assistant message.
\<close>

theorem model_reply_content:
  assumes "json_truthy (data_get (r_data request) ''session_id'')"
    and "json_truthy (data_get (r_data request) ''message'')"
    and "get_session rt st (data_get (r_data request) ''session_id'') (r_user request) = Inr session"
    and "selected_provider rt st (data_get (r_data request) ''model_id'')
           (data_get (r_data request) ''dify_config_id'') = Inr (UseModel ai_config)"
    and "p_status_code r = 200"
  shows "(\<forall>kvs. p_json r = Some (JObj kvs) \<longrightarrow>
           (map_of kvs ''choices'' \<in> {None, Some (JArr []), Some (JObj []), Some (JVal (PStr []))}
              \<longrightarrow> replied_with (send_message rt (\<lambda>q. Responds r) request st) st
                    (JVal (PStr [])))
           \<and> (\<forall>ckvs rest mkvs v.
                 map_of kvs ''choices'' = Some (JArr (JObj ckvs # rest))
                 \<and> map_of ckvs ''message'' = Some (JObj mkvs)
                 \<and> map_of mkvs ''content'' = Some v
                 \<longrightarrow> (\<forall>s. v = JVal (PStr s)
                         \<longrightarrow> replied_with (send_message rt (\<lambda>q. Responds r) request st) st
                               (JVal (PStr s)))
                     \<and> (v \<noteq> JVal PNone
                         \<longrightarrow> replied_with (send_message rt (\<lambda>q. Responds r) request st) st
                               (JVal (PStr (py_str rt v))))
                     \<and> (v = JVal PNone
                         \<longrightarrow> fst (send_message rt (\<lambda>q. Responds r) request st) =
                               Inr (error_response 500 (ModelRequestFailed IntegrityError) None)
                             \<and> chat_messages (snd (send_message rt (\<lambda>q. Responds r) request st)) =
                                 chat_messages st
                                   @ [user_message_row rt st session
                                        (data_get (r_data request) ''message'')])))
     \<and> ((\<forall>kvs. p_json r \<noteq> Some (JObj kvs)) \<longrightarrow>
           (\<exists>e. fst (send_message rt (\<lambda>q. Responds r) request st) =
                  Inr (error_response 500 (ModelRequestFailed e) None))
           \<and> chat_messages (snd (send_message rt (\<lambda>q. Responds r) request st)) =
               chat_messages st
                 @ [user_message_row rt st session (data_get (r_data request) ''message'')])"
proof -
  note n = truthy_not_none [OF assms(2)]
  let ?out = "send_message rt (\<lambda>q. Responds r) request st"
  let ?um = "user_message_row rt st session (data_get (r_data request) ''message'')"
  have eq: "?out =
      model_path rt (\<lambda>q. Responds r) st session (data_get (r_data request) ''message'') ai_config"
    using send_message_dispatch [OF assms(1-3), of "\<lambda>q. Responds r"] assms(4) by simp
  have a: "replied_with ?out st (JVal (PStr []))"
    if "p_json r = Some (JObj kvs)"
      "map_of kvs ''choices'' \<in> {None, Some (JArr []), Some (JObj []), Some (JVal (PStr []))}"
    for kvs
    using model_path_reply [OF n assms(5) that(1) answer_content_absent_or_empty [OF that(2)],
        of rt st session ai_config]
    unfolding eq by simp
  have b: "replied_with ?out st (JVal (PStr (py_str rt v)))"
    if "p_json r = Some (JObj kvs)"
      "map_of kvs ''choices'' = Some (JArr (JObj ckvs # rest))"
      "map_of ckvs ''message'' = Some (JObj mkvs)"
      "map_of mkvs ''content'' = Some v" "v \<noteq> JVal PNone"
    for kvs ckvs rest mkvs v
    unfolding eq
    by (rule model_path_reply [OF n assms(5) that(1) answer_content_first_choice [OF that(2-4)]
          that(5)])
  have b': "replied_with ?out st (JVal (PStr s))"
    if "p_json r = Some (JObj kvs)"
      "map_of kvs ''choices'' = Some (JArr (JObj ckvs # rest))"
      "map_of ckvs ''message'' = Some (JObj mkvs)"
      "map_of mkvs ''content'' = Some v" "v = JVal (PStr s)"
    for kvs ckvs rest mkvs v s
    using b [OF that(1-4)] that(5) by simp
  have c: "fst ?out = Inr (error_response 500 (ModelRequestFailed IntegrityError) None)
      \<and> chat_messages (snd ?out) = chat_messages st @ [?um]"
    if "p_json r = Some (JObj kvs)"
      "map_of kvs ''choices'' = Some (JArr (JObj ckvs # rest))"
      "map_of ckvs ''message'' = Some (JObj mkvs)"
      "map_of mkvs ''content'' = Some v" "v = JVal PNone"
    for kvs ckvs rest mkvs v
    using model_path_null_reply [OF n assms(5) that(1)
        answer_content_first_choice [OF that(2-4), unfolded that(5)], of rt st session ai_config]
    unfolding eq by (simp add: log_post_def with_user_message_def)
  have d: "(\<exists>e. fst ?out = Inr (error_response 500 (ModelRequestFailed e) None))
           \<and> chat_messages (snd ?out) = chat_messages st @ [?um]"
    if "\<forall>kvs. p_json r \<noteq> Some (JObj kvs)"
    using model_path_malformed_reply [OF n assms(5) that, of rt st session ai_config]
    unfolding eq by (auto simp: log_post_def with_user_message_def)
  show ?thesis
  proof (intro conjI allI impI)
    fix kvs
    assume "p_json r = Some (JObj kvs)"
      "map_of kvs ''choices'' \<in> {None, Some (JArr []), Some (JObj []), Some (JVal (PStr []))}"
    then show "replied_with ?out st (JVal (PStr []))" by (rule a)
  next
    fix kvs ckvs rest mkvs v s
    assume "p_json r = Some (JObj kvs)"
      "map_of kvs ''choices'' = Some (JArr (JObj ckvs # rest))
                 \<and> map_of ckvs ''message'' = Some (JObj mkvs)
                 \<and> map_of mkvs ''content'' = Some v"
      "v = JVal (PStr s)"
    then show "replied_with ?out st (JVal (PStr s))" using b' by blast
  next
    fix kvs ckvs rest mkvs v
    assume "p_json r = Some (JObj kvs)"
      "map_of kvs ''choices'' = Some (JArr (JObj ckvs # rest))
                 \<and> map_of ckvs ''message'' = Some (JObj mkvs)
                 \<and> map_of mkvs ''content'' = Some v"
      "v \<noteq> JVal PNone"
    then show "replied_with ?out st (JVal (PStr (py_str rt v)))" using b by blast
  next
    fix kvs ckvs rest mkvs v
    assume h: "p_json r = Some (JObj kvs)"
      "map_of kvs ''choices'' = Some (JArr (JObj ckvs # rest))
                 \<and> map_of ckvs ''message'' = Some (JObj mkvs)
                 \<and> map_of mkvs ''content'' = Some v"
      "v = JVal PNone"
    from h show "fst ?out = Inr (error_response 500 (ModelRequestFailed IntegrityError) None)"
      using c by blast
    from h show "chat_messages (snd ?out) = chat_messages st @ [?um]"
      using c by blast
  next
    assume h: "\<forall>kvs. p_json r \<noteq> Some (JObj kvs)"
    from d [OF h] show "\<exists>e. fst ?out = Inr (error_response 500 (ModelRequestFailed e) None)"
      by blast
    from d [OF h] show "chat_messages (snd ?out) = chat_messages st @ [?um]" by blast
  qed
qed

text \<open>
  The claim as stated fails: a 200 answer whose body is no JSON document, or whose
  first choice has no message, ends in the answer 500 with no assistant message.
\<close>

theorem model_reply_content_counterexample:
  "fst (send_message example_runtime (example_text_reply 200 ''<html>'')
          (example_request (PInt 1) PNone) example_store) =
     Inr (error_response 500 (ModelRequestFailed JSONDecodeError) None)
   \<and> chat_messages (snd (send_message example_runtime (example_text_reply 200 ''<html>'')
                          (example_request (PInt 1) PNone) example_store)) =
       [example_system_message, example_assistant_message,
        user_message_row example_runtime example_store example_session (JVal (PStr ''hi''))]
   \<and> fst (send_message example_runtime
            (example_reply 200 (JObj [(''choices'', JArr [JObj [(''text'', JVal (PStr ''hello''))]])]))
            (example_request (PInt 1) PNone) example_store) =
     Inr (error_response 500 (ModelRequestFailed KeyError) None)
   \<and> chat_messages (snd (send_message example_runtime
            (example_reply 200 (JObj [(''choices'', JArr [JObj [(''text'', JVal (PStr ''hello''))]])]))
            (example_request (PInt 1) PNone) example_store)) =
       [example_system_message, example_assistant_message,
        user_message_row example_runtime example_store example_session (JVal (PStr ''hi''))]"
proof -
  have n: "JVal (PStr ''hi'') \<noteq> JVal PNone" by simp
  have eq: "send_message example_runtime post (example_request (PInt 1) PNone) example_store =
      model_path example_runtime post example_store example_session (JVal (PStr ''hi''))
        example_model" for post
    by (simp add: send_message_dispatch [where session = example_session]
        example_request_fields example_get_session example_selected)
  have a: "answer_content (JObj [(''choices'', JArr [JObj [(''text'', JVal (PStr ''hello''))]])]) =
      Inl KeyError"
    by (simp add: answer_content_def and_then_def)
  show ?thesis
    unfolding eq
    by (simp add: model_path_unfold [OF n] example_text_reply_def example_reply_def
        response_json_def and_then_def a log_post_def with_user_message_def example_store_fields)
qed

lemma example_reply_eta:
  "example_reply code body =
     (\<lambda>q. Responds \<lparr> p_status_code = code, p_text = ''overloaded'', p_json = Some body \<rparr>)"
  by (simp add: example_reply_def fun_eq_iff)

theorem model_reply_content_witness:
  "replied_with (send_message example_runtime (example_reply 200 (JObj []))
       (example_request (PInt 1) PNone) example_store) example_store (JVal (PStr []))
   \<and> replied_with
       (send_message example_runtime
          (example_reply 200
             (JObj [(''id'', JVal (PStr ''cmpl-1'')),
                    (''choices'',
                     JArr [JObj [(''message'',
                                  JObj [(''role'', JVal (PStr ''assistant'')),
                                        (''content'', JVal (PStr ''hello there''))])]])]))
          (example_request (PInt 1) PNone) example_store)
       example_store (JVal (PStr ''hello there''))
   \<and> fst (send_message example_runtime
          (example_reply 200
             (JObj [(''choices'',
                     JArr [JObj [(''message'', JObj [(''content'', JVal PNone)])]])]))
          (example_request (PInt 1) PNone) example_store) =
       Inr (error_response 500 (ModelRequestFailed IntegrityError) None)"
proof -
  note t = model_reply_content [where request = "example_request (PInt 1) PNone"
      and rt = example_runtime
      and st = example_store and session = example_session and ai_config = example_model]
  have a: "replied_with (send_message example_runtime (example_reply 200 (JObj []))
       (example_request (PInt 1) PNone) example_store) example_store (JVal (PStr []))"
    using t [where r = "\<lparr> p_status_code = 200, p_text = ''overloaded'', p_json = Some (JObj []) \<rparr>"]
    by (simp add: example_request_fields example_get_session example_selected
        example_reply_eta)
  have b: "replied_with
       (send_message example_runtime
          (example_reply 200
             (JObj [(''id'', JVal (PStr ''cmpl-1'')),
                    (''choices'',
                     JArr [JObj [(''message'',
                                  JObj [(''role'', JVal (PStr ''assistant'')),
                                        (''content'', JVal (PStr ''hello there''))])]])]))
          (example_request (PInt 1) PNone) example_store)
       example_store (JVal (PStr ''hello there''))"
    using t [where r = "\<lparr> p_status_code = 200, p_text = ''overloaded'',
        p_json = Some (JObj [(''id'', JVal (PStr ''cmpl-1'')),
                    (''choices'',
                     JArr [JObj [(''message'',
                                  JObj [(''role'', JVal (PStr ''assistant'')),
                                        (''content'', JVal (PStr ''hello there''))])]])]) \<rparr>"]
    by (simp add: example_request_fields example_get_session example_selected
        example_reply_eta)
  have c: "fst (send_message example_runtime
          (example_reply 200
             (JObj [(''choices'',
                     JArr [JObj [(''message'', JObj [(''content'', JVal PNone)])]])]))
          (example_request (PInt 1) PNone) example_store) =
       Inr (error_response 500 (ModelRequestFailed IntegrityError) None)"
    using t [where r = "\<lparr> p_status_code = 200, p_text = ''overloaded'',
        p_json = Some (JObj [(''choices'',
                     JArr [JObj [(''message'', JObj [(''content'', JVal PNone)])]])]) \<rparr>"]
    by (simp add: example_request_fields example_get_session example_selected
        example_reply_eta)
  from a b c show ?thesis by blast
qed

end
